theory Spec2Isabelle
  imports Complex_Main
begin

section \<open>Data model\<close>

text \<open>
  The scripts of \<^verbatim>\<open>quantitative_analysis\<close> work on pandas data frames read from a CSV
  file. A cell of a numeric column is a number, one of the two infinities, or the
  missing-value marker; every comparison with the marker is false, as it is for a
  floating-point NaN, and the infinities lie below and above every number.
\<close>

datatype cell = NaN | Num rat | PosInf | NegInf

fun cell_eq :: "cell \<Rightarrow> rat \<Rightarrow> bool" where
  "cell_eq (Num x) k = (x = k)"
| "cell_eq _ k = False"

fun cell_lt :: "cell \<Rightarrow> rat \<Rightarrow> bool" where
  "cell_lt (Num x) k = (x < k)"
| "cell_lt NegInf k = True"
| "cell_lt _ k = False"

fun cell_gt :: "cell \<Rightarrow> rat \<Rightarrow> bool" where
  "cell_gt (Num x) k = (x > k)"
| "cell_gt PosInf k = True"
| "cell_gt _ k = False"

text \<open>
  A data frame: the column names, the row labels (the index) and the rows of values,
  each row in the order of the columns. The frames read from the CSV file are labelled
  by row numbers, a correlation matrix by the item names.
\<close>

record 'l frame =
  df_columns :: "string list"
  df_index :: "'l list"
  df_values :: "cell list list"

datatype error = KeyError | TypeError | IndexError | ValueError | LinAlgError

text \<open>
  The Python values \<^verbatim>\<open>get_upper_triangle\<close> can be handed: a two-dimensional numpy
  array (the rows of a matrix), a data frame, or any other object.
\<close>

datatype 'l pyobj =
    NDArray "cell list list"
  | DataFrame "'l frame"
  | PyNone
  | PyInt int
  | PyFloat cell
  | PyStr string
  | PyList "'l pyobj list"

section \<open>The upper triangle of a correlation matrix\<close>

text \<open>
  \<^verbatim>\<open>np.triu_indices(n, k=1)\<close>: the positions above the main diagonal of an
  \<open>n \<times> n\<close> array, row by row.
\<close>

definition triu_indices :: "nat \<Rightarrow> (nat \<times> nat) list" where
  "triu_indices n = concat (map (\<lambda>i. map (\<lambda>j. (i, j)) [Suc i..<n]) [0..<n])"

text \<open>
  \<^verbatim>\<open>df[mask]\<close> with a pair of index arrays: the entries at the listed positions, in
  their order; a position outside the array raises IndexError.
\<close>

fun take_at :: "cell list list \<Rightarrow> (nat \<times> nat) list \<Rightarrow> error + cell list" where
  "take_at a [] = Inr []"
| "take_at a ((i, j) # ps) =
     (if i < length a \<and> j < length (a ! i)
      then (case take_at a ps of Inl e \<Rightarrow> Inl e | Inr vs \<Rightarrow> Inr (a ! i ! j # vs))
      else Inl IndexError)"

text \<open>
  \<^verbatim>\<open>
  def get_upper_triangle(df):
      if not isinstance(df, np.ndarray):
          if isinstance(df, pd.DataFrame):
              df = df.values
          else:
              raise TypeError('Must be np.ndarray or pd.DataFrame')
      mask = np.triu_indices(df.shape[0], k=1)
      return df[mask]
  \<close>
\<close>

fun is_ndarray :: "'l pyobj \<Rightarrow> bool" where
  "is_ndarray (NDArray a) = True"
| "is_ndarray _ = False"

fun is_dataframe :: "'l pyobj \<Rightarrow> bool" where
  "is_dataframe (DataFrame f) = True"
| "is_dataframe _ = False"

definition upper_of :: "cell list list \<Rightarrow> error + cell list" where
  "upper_of a = take_at a (triu_indices (length a))"

fun get_upper_triangle :: "'l pyobj \<Rightarrow> error + cell list" where
  "get_upper_triangle (NDArray a) = upper_of a"
| "get_upper_triangle (DataFrame f) = upper_of (df_values f)"
| "get_upper_triangle _ = Inl TypeError"

definition square :: "nat \<Rightarrow> cell list list \<Rightarrow> bool" where
  "square n a \<longleftrightarrow> length a = n \<and> (\<forall>r \<in> set a. length r = n)"

section \<open>Operations on data frames\<close>

fun col_pos :: "string list \<Rightarrow> string \<Rightarrow> nat option" where
  "col_pos [] c = None"
| "col_pos (x # xs) c = (if x = c then Some 0 else map_option Suc (col_pos xs c))"

text \<open>\<^verbatim>\<open>len(df)\<close> and \<^verbatim>\<open>df.empty\<close> (true when either axis has length 0).\<close>

definition df_len :: "'l frame \<Rightarrow> nat" where
  "df_len f = length (df_values f)"

definition df_empty :: "'l frame \<Rightarrow> bool" where
  "df_empty f \<longleftrightarrow> df_len f = 0 \<or> df_columns f = []"

text \<open>\<^verbatim>\<open>df[c]\<close> for one column name: the column as a series, KeyError when absent.\<close>

definition getitem_col :: "'l frame \<Rightarrow> string \<Rightarrow> error + cell list" where
  "getitem_col f c =
     (case col_pos (df_columns f) c of
        None \<Rightarrow> Inl KeyError
      | Some k \<Rightarrow> Inr (map (\<lambda>row. row ! k) (df_values f)))"

text \<open>\<^verbatim>\<open>df[cols]\<close> for a list of names: a new frame of these columns in the order
  asked, with all rows; KeyError when one of them is absent.\<close>

definition getitem_cols :: "'l frame \<Rightarrow> string list \<Rightarrow> error + 'l frame" where
  "getitem_cols f cs =
     (if \<forall>c \<in> set cs. col_pos (df_columns f) c \<noteq> None
      then Inr \<lparr>df_columns = cs, df_index = df_index f,
                df_values = map (\<lambda>row. map (\<lambda>c. row ! the (col_pos (df_columns f) c)) cs)
                              (df_values f)\<rparr>
      else Inl KeyError)"

text \<open>\<^verbatim>\<open>df[mask]\<close> for a boolean series: a new frame of the rows where the mask holds,
  under their labels, in their order.\<close>

definition keep :: "bool list \<Rightarrow> 'a list \<Rightarrow> 'a list" where
  "keep bs xs = map snd (filter fst (zip bs xs))"

definition getitem_mask :: "'l frame \<Rightarrow> bool list \<Rightarrow> 'l frame" where
  "getitem_mask f bs =
     \<lparr>df_columns = df_columns f, df_index = keep bs (df_index f),
      df_values = keep bs (df_values f)\<rparr>"

text \<open>\<^verbatim>\<open>df.drop(cs, axis=1)\<close>: the frame without the named columns, KeyError when one
  of them is absent.\<close>

definition drop_cols :: "'l frame \<Rightarrow> string list \<Rightarrow> error + 'l frame" where
  "drop_cols f cs =
     (if \<forall>c \<in> set cs. c \<in> set (df_columns f)
      then Inr \<lparr>df_columns = filter (\<lambda>c. c \<notin> set cs) (df_columns f), df_index = df_index f,
                df_values = map (\<lambda>row. keep (map (\<lambda>c. c \<notin> set cs) (df_columns f)) row)
                              (df_values f)\<rparr>
      else Inl KeyError)"

text \<open>\<^verbatim>\<open>df.dropna()\<close>: the rows without a missing value.\<close>

definition dropna :: "'l frame \<Rightarrow> 'l frame" where
  "dropna f = getitem_mask f (map (\<lambda>row. NaN \<notin> set row) (df_values f))"

text \<open>Comparisons of a series with a number, and the conjunction of two masks.\<close>

definition series_eq :: "cell list \<Rightarrow> rat \<Rightarrow> bool list" where
  "series_eq s k = map (\<lambda>c. cell_eq c k) s"

definition series_lt :: "cell list \<Rightarrow> rat \<Rightarrow> bool list" where
  "series_lt s k = map (\<lambda>c. cell_lt c k) s"

definition series_gt :: "cell list \<Rightarrow> rat \<Rightarrow> bool list" where
  "series_gt s k = map (\<lambda>c. cell_gt c k) s"

definition series_and :: "bool list \<Rightarrow> bool list \<Rightarrow> bool list" where
  "series_and m1 m2 = map (\<lambda>(a, b). a \<and> b) (zip m1 m2)"

text \<open>
  A frame as \<^verbatim>\<open>read_csv\<close> and the operations above produce it: distinct column
  names, one label per row, distinct labels, every row as long as the column list.
\<close>

definition wf_frame :: "'l frame \<Rightarrow> bool" where
  "wf_frame f \<longleftrightarrow>
     distinct (df_columns f) \<and> distinct (df_index f) \<and>
     length (df_index f) = length (df_values f) \<and>
     (\<forall>row \<in> set (df_values f). length row = length (df_columns f))"

section \<open>Objects, output and the random generator\<close>

text \<open>
  Data frames are objects: \<^verbatim>\<open>drop(..., inplace=True)\<close> changes the object it is called
  on, and every holder of a reference sees the change. The store is the list of the
  frames allocated so far, a reference is a position in it. Besides the store, the
  state of a run holds what was printed and which external routine was called on which
  frame, in order, and the state of numpy's global random generator.
\<close>

type_synonym ref = nat

datatype event =
    Print string
  | PrintNum string nat
  | PrintGroup nat string nat
  | PrintAnalyzing nat string
  | PrintVals string "cell list"
  | PrintPair nat nat "cell list"
  | Called string "nat frame"
  | Export string

record 'g world =
  heap :: "nat frame list"
  out :: "event list"
  rng :: 'g

type_synonym ('g, 'a) prog = "'g world \<Rightarrow> (error + 'a) \<times> 'g world"

definition ret :: "'a \<Rightarrow> ('g, 'a) prog" where
  "ret x w = (Inr x, w)"

definition raise :: "error \<Rightarrow> ('g, 'a) prog" where
  "raise e w = (Inl e, w)"

definition seq :: "('g, 'a) prog \<Rightarrow> ('a \<Rightarrow> ('g, 'b) prog) \<Rightarrow> ('g, 'b) prog" where
  "seq m k w = (case m w of (Inl e, w') \<Rightarrow> (Inl e, w') | (Inr x, w') \<Rightarrow> k x w')"

definition lift :: "error + 'a \<Rightarrow> ('g, 'a) prog" where
  "lift r w = (r, w)"

definition alloc :: "nat frame \<Rightarrow> ('g, ref) prog" where
  "alloc f w = (Inr (length (heap w)), w\<lparr>heap := heap w @ [f]\<rparr>)"

definition load :: "ref \<Rightarrow> ('g, nat frame) prog" where
  "load r w = (Inr (heap w ! r), w)"

definition store :: "ref \<Rightarrow> nat frame \<Rightarrow> ('g, unit) prog" where
  "store r f w = (Inr (), w\<lparr>heap := (heap w)[r := f]\<rparr>)"

definition emit :: "event \<Rightarrow> ('g, unit) prog" where
  "emit e w = (Inr (), w\<lparr>out := out w @ [e]\<rparr>)"

text \<open>The pandas operations on objects: all but the in-place drop allocate their result.\<close>

definition py_copy :: "ref \<Rightarrow> ('g, ref) prog" where
  "py_copy r = seq (load r) alloc"

definition py_getitem_cols :: "ref \<Rightarrow> string list \<Rightarrow> ('g, ref) prog" where
  "py_getitem_cols r cs = seq (load r) (\<lambda>f. seq (lift (getitem_cols f cs)) alloc)"

definition py_getitem_col :: "ref \<Rightarrow> string \<Rightarrow> ('g, cell list) prog" where
  "py_getitem_col r c = seq (load r) (\<lambda>f. lift (getitem_col f c))"

definition py_getitem_mask :: "ref \<Rightarrow> bool list \<Rightarrow> ('g, ref) prog" where
  "py_getitem_mask r bs = seq (load r) (\<lambda>f. alloc (getitem_mask f bs))"

definition py_drop_inplace :: "ref \<Rightarrow> string list \<Rightarrow> ('g, unit) prog" where
  "py_drop_inplace r cs = seq (load r) (\<lambda>f. seq (lift (drop_cols f cs)) (store r))"

definition py_dropna :: "ref \<Rightarrow> ('g, ref) prog" where
  "py_dropna r = seq (load r) (\<lambda>f. alloc (dropna f))"

definition py_len :: "ref \<Rightarrow> ('g, nat) prog" where
  "py_len r = seq (load r) (\<lambda>f. ret (df_len f))"

definition py_empty :: "ref \<Rightarrow> ('g, bool) prog" where
  "py_empty r = seq (load r) (\<lambda>f. ret (df_empty f))"

definition py_index :: "'a list \<Rightarrow> nat \<Rightarrow> ('g, 'a) prog" where
  "py_index xs i = (if i < length xs then ret (xs ! i) else raise IndexError)"

section \<open>Constants of the factor analysis script\<close>

definition STUDENT_ROLE_CODE :: rat where
  "STUDENT_ROLE_CODE = 2"

definition FREQUENT_VISITOR_THRESHOLD :: rat where
  "FREQUENT_VISITOR_THRESHOLD = 1"

definition HIDDEN_THRESHOLD :: rat where
  "HIDDEN_THRESHOLD = 50"

definition NUM_FACTORS :: nat where
  "NUM_FACTORS = 3"

definition QUESTION_COLS :: "string list" where
  "QUESTION_COLS = [''g01'', ''g02'', ''g03'', ''g04'', ''g05'', ''g06'',
                    ''g07'', ''g08'', ''g09'', ''g10'', ''g11'', ''g12'']"

definition GROUP_LABELS :: "string list" where
  "GROUP_LABELS = [''Single Page - Order A'', ''Single Page - Order B'',
                   ''Slides - Order A'', ''Slides - Order B'']"

section \<open>Filtering and the four format groups\<close>

text \<open>
  \<^verbatim>\<open>filter_data\<close> of \<^verbatim>\<open>factor_analysis.py\<close>: the students who visit often. Both
  selections produce new frames; an empty result is reported and replaced by
  \<^verbatim>\<open>pd.DataFrame()\<close>. The colour codes of the printed lines are left out.
\<close>

definition empty_frame :: "nat frame" where
  "empty_frame = \<lparr>df_columns = [], df_index = [], df_values = []\<rparr>"

definition filter_data :: "ref \<Rightarrow> ('g, ref) prog" where
  "filter_data matrix =
     seq (py_len matrix) (\<lambda>initial_count.
     seq (py_getitem_col matrix ''uloga'') (\<lambda>uloga.
     seq (py_getitem_mask matrix (series_eq uloga STUDENT_ROLE_CODE)) (\<lambda>students.
     seq (py_len students) (\<lambda>students_count.
     seq (py_getitem_col students ''cesto'') (\<lambda>cesto.
     seq (py_getitem_mask students (series_gt cesto FREQUENT_VISITOR_THRESHOLD)) (\<lambda>frequent.
     seq (py_len frequent) (\<lambda>final_count.
     seq (emit (PrintNum ''Initial records: '' initial_count)) (\<lambda>_.
     seq (emit (PrintNum ''Students only: '' students_count)) (\<lambda>_.
     seq (emit (PrintNum ''Frequent visitors: '' final_count)) (\<lambda>_.
     seq (py_empty frequent) (\<lambda>e.
     if e then seq (emit (Print ''Error: No data left after filtering.'')) (\<lambda>_. alloc empty_frame)
     else ret frequent)))))))))))"

text \<open>
  One condition of the partition, a boolean series over the rows of \<open>grid\<close>:
  \<^verbatim>\<open>(grid['formatUp'] == fmt) & (grid['hidden'] < h)\<close>, and the same with a
  greater-than comparison.
\<close>

definition cond_lt :: "ref \<Rightarrow> rat \<Rightarrow> rat \<Rightarrow> ('g, bool list) prog" where
  "cond_lt grid fmt h =
     seq (py_getitem_col grid ''formatUp'') (\<lambda>fu.
     seq (py_getitem_col grid ''hidden'') (\<lambda>hi.
     ret (series_and (series_eq fu fmt) (series_lt hi h))))"

definition cond_gt :: "ref \<Rightarrow> rat \<Rightarrow> rat \<Rightarrow> ('g, bool list) prog" where
  "cond_gt grid fmt h =
     seq (py_getitem_col grid ''formatUp'') (\<lambda>fu.
     seq (py_getitem_col grid ''hidden'') (\<lambda>hi.
     ret (series_and (series_eq fu fmt) (series_gt hi h))))"

text \<open>
  \<^verbatim>\<open>prepare_format_groups\<close> of \<^verbatim>\<open>factor_analysis.py\<close>:
  \<^verbatim>\<open>
  cols = ['formatUp', 'hidden'] + QUESTION_COLS
  grid = matrix[cols].copy()
  groups = []
  conditions = [
      (grid['formatUp'] == 1) & (grid['hidden'] < HIDDEN_THRESHOLD + 1),
      (grid['formatUp'] == 1) & (grid['hidden'] > HIDDEN_THRESHOLD),
      (grid['formatUp'] == 2) & (grid['hidden'] < HIDDEN_THRESHOLD + 1),
      (grid['formatUp'] == 2) & (grid['hidden'] > HIDDEN_THRESHOLD)
  ]
  for i, condition in enumerate(conditions):
      group = grid[condition].copy()
      group.drop(['formatUp', 'hidden'], axis=1, inplace=True)
      groups.append(group)
      print(f"  Group {i + 1} ({GROUP_LABELS[i]}): {len(group)} records")
  return groups
  \<close>
\<close>

definition conditions :: "ref \<Rightarrow> ('g, bool list list) prog" where
  "conditions grid =
     seq (cond_lt grid 1 (HIDDEN_THRESHOLD + 1)) (\<lambda>c1.
     seq (cond_gt grid 1 HIDDEN_THRESHOLD) (\<lambda>c2.
     seq (cond_lt grid 2 (HIDDEN_THRESHOLD + 1)) (\<lambda>c3.
     seq (cond_gt grid 2 HIDDEN_THRESHOLD) (\<lambda>c4.
     ret [c1, c2, c3, c4]))))"

fun groups_loop :: "ref \<Rightarrow> (nat \<times> bool list) list \<Rightarrow> ref list \<Rightarrow> ('g, ref list) prog" where
  "groups_loop grid [] groups = ret groups"
| "groups_loop grid ((i, condition) # rest) groups =
     seq (py_getitem_mask grid condition) (\<lambda>sel.
     seq (py_copy sel) (\<lambda>grp.
     seq (py_drop_inplace grp [''formatUp'', ''hidden'']) (\<lambda>_.
     seq (py_index GROUP_LABELS i) (\<lambda>label.
     seq (py_len grp) (\<lambda>n.
     seq (emit (PrintGroup (i + 1) label n)) (\<lambda>_.
     groups_loop grid rest (groups @ [grp])))))))"

definition prepare_format_groups :: "ref \<Rightarrow> ('g, ref list) prog" where
  "prepare_format_groups matrix =
     seq (emit (Print ''Preparing format groups...'')) (\<lambda>_.
     seq (py_getitem_cols matrix ([''formatUp'', ''hidden''] @ QUESTION_COLS)) (\<lambda>sel.
     seq (py_copy sel) (\<lambda>grid.
     seq (conditions grid) (\<lambda>conds.
     groups_loop grid (enumerate 0 conds) []))))"

text \<open>
  \<^verbatim>\<open>prepare_format_groups\<close> of \<^verbatim>\<open>correlation_heatmaps.py\<close>:
  \<^verbatim>\<open>
  columns = ['formatUp', 'hidden', 'g01', ..., 'g12']
  grid = matrix[columns]
  forms = [
      grid[(grid['formatUp'] == 1) & (grid['hidden'] < 51)].copy(),
      grid[(grid['formatUp'] == 1) & (grid['hidden'] > 50)].copy(),
      grid[(grid['formatUp'] == 2) & (grid['hidden'] < 51)].copy(),
      grid[(grid['formatUp'] == 2) & (grid['hidden'] > 50)].copy()
  ]
  for form in forms:
      form.drop(["formatUp", "hidden"], axis=1, inplace=True)
  return forms
  \<close>
\<close>

definition form_lt :: "ref \<Rightarrow> rat \<Rightarrow> rat \<Rightarrow> ('g, ref) prog" where
  "form_lt grid fmt h = seq (cond_lt grid fmt h) (\<lambda>c. seq (py_getitem_mask grid c) py_copy)"

definition form_gt :: "ref \<Rightarrow> rat \<Rightarrow> rat \<Rightarrow> ('g, ref) prog" where
  "form_gt grid fmt h = seq (cond_gt grid fmt h) (\<lambda>c. seq (py_getitem_mask grid c) py_copy)"

fun drop_loop :: "ref list \<Rightarrow> ('g, unit) prog" where
  "drop_loop [] = ret ()"
| "drop_loop (form # rest) =
     seq (py_drop_inplace form [''formatUp'', ''hidden'']) (\<lambda>_. drop_loop rest)"

definition prepare_format_groups_hm :: "ref \<Rightarrow> ('g, ref list) prog" where
  "prepare_format_groups_hm matrix =
     seq (py_getitem_cols matrix
            [''formatUp'', ''hidden'', ''g01'', ''g02'', ''g03'', ''g04'', ''g05'', ''g06'',
             ''g07'', ''g08'', ''g09'', ''g10'', ''g11'', ''g12'']) (\<lambda>grid.
     seq (form_lt grid 1 51) (\<lambda>f1.
     seq (form_gt grid 1 50) (\<lambda>f2.
     seq (form_lt grid 2 51) (\<lambda>f3.
     seq (form_gt grid 2 50) (\<lambda>f4.
     seq (drop_loop [f1, f2, f3, f4]) (\<lambda>_.
     ret [f1, f2, f3, f4]))))))"

section \<open>The external routines\<close>

text \<open>
  The statistics are computed by libraries outside the repository: factor_analyzer
  (Bartlett's test, KMO, the factor analysis), pandas and numpy (row sampling,
  correlation matrices, percentiles), scipy (Kendall's tau). They are parameters of
  the model. Each takes the value of the frame it is given and returns a result or
  raises; none changes a frame. \<open>rs_choice g n k\<close> stands for the generator's draw of
  \<open>k\<close> of the positions below \<open>n\<close> without replacement, and returns the generator's
  next state.
\<close>

record 'g lib =
  calculate_bartlett_sphericity :: "nat frame \<Rightarrow> error + (cell \<times> cell)"
  calculate_kmo :: "nat frame \<Rightarrow> error + (cell list \<times> cell)"
  factor_analyzer :: "nat \<Rightarrow> nat frame \<Rightarrow> error + (cell list list \<times> cell list)"
  rs_choice :: "'g \<Rightarrow> nat \<Rightarrow> nat \<Rightarrow> nat list \<times> 'g"
  corr :: "string \<Rightarrow> nat frame \<Rightarrow> error + string frame"
  kendalltau :: "cell list \<Rightarrow> cell list \<Rightarrow> error + cell"
  np_percentile :: "cell list \<Rightarrow> rat \<Rightarrow> error + cell"
  np_mean :: "cell list \<Rightarrow> error + cell"

text \<open>A call of a routine on a frame object is recorded, then made.\<close>

definition call_on :: "string \<Rightarrow> (nat frame \<Rightarrow> error + 'a) \<Rightarrow> ref \<Rightarrow> ('g, 'a) prog" where
  "call_on name f r = seq (load r) (\<lambda>x. seq (emit (Called name x)) (\<lambda>_. lift (f x)))"

section \<open>Adequacy tests and factor analysis\<close>

fun cell_ge :: "cell \<Rightarrow> rat \<Rightarrow> bool" where
  "cell_ge (Num x) k = (x \<ge> k)"
| "cell_ge PosInf k = True"
| "cell_ge _ k = False"

definition kmo_interpretation :: "cell \<Rightarrow> string" where
  "kmo_interpretation kmo_model =
     (if cell_ge kmo_model (9 / 10) then ''Marvelous''
      else if cell_ge kmo_model (8 / 10) then ''Meritorious''
      else if cell_ge kmo_model (7 / 10) then ''Middling''
      else if cell_ge kmo_model (6 / 10) then ''Mediocre''
      else if cell_ge kmo_model (5 / 10) then ''Miserable''
      else ''Unacceptable'')"

text \<open>
  \<^verbatim>\<open>perform_adequacy_tests\<close>:
  \<^verbatim>\<open>
  cols = QUESTION_COLS
  grid = matrix[cols].copy()
  faktor = grid.dropna()
  print(f"Complete cases for analysis: {len(faktor)}")
  chi_square, p_value = calculate_bartlett_sphericity(faktor)
  ...
  kmo_all, kmo_model = calculate_kmo(faktor)
  ...
  return chi_square, p_value, kmo_model
  \<close>
  There is no test of the number of complete cases between \<^verbatim>\<open>dropna\<close> and the two
  calls. The printed lines are kept without their colour codes, pictographs and
  apostrophe; a formatted number is kept as the value it shows.
\<close>

definition perform_adequacy_tests :: "'g lib \<Rightarrow> ref \<Rightarrow> ('g, cell \<times> cell \<times> cell) prog" where
  "perform_adequacy_tests lib matrix =
     seq (emit (Print ''Performing adequacy tests...'')) (\<lambda>_.
     seq (py_getitem_cols matrix QUESTION_COLS) (\<lambda>sel.
     seq (py_copy sel) (\<lambda>grid.
     seq (py_dropna grid) (\<lambda>faktor.
     seq (py_len faktor) (\<lambda>n.
     seq (emit (PrintNum ''Complete cases for analysis: '' n)) (\<lambda>_.
     seq (call_on ''calculate_bartlett_sphericity'' (calculate_bartlett_sphericity lib) faktor)
       (\<lambda>(chi_square, p_value).
     seq (emit (Print ''Bartlett Test of Sphericity:'')) (\<lambda>_.
     seq (emit (PrintVals ''  Chi-square: '' [chi_square])) (\<lambda>_.
     seq (emit (PrintVals ''  p-value: '' [p_value])) (\<lambda>_.
     seq (emit (Print (if cell_lt p_value (1 / 1000)
                       then ''  Data is suitable for factor analysis (p < 0.001)''
                       else ''  Warning: p-value > 0.001''))) (\<lambda>_.
     seq (call_on ''calculate_kmo'' (calculate_kmo lib) faktor) (\<lambda>(kmo_all, kmo_model).
     seq (emit (Print ''Kaiser-Meyer-Olkin (KMO) Test:'')) (\<lambda>_.
     seq (emit (PrintVals ''  Overall KMO: '' [kmo_model])) (\<lambda>_.
     seq (emit (Print (''  Interpretation: '' @ kmo_interpretation kmo_model))) (\<lambda>_.
     ret (chi_square, p_value, kmo_model))))))))))))))))"

text \<open>
  \<^verbatim>\<open>perform_factor_analysis\<close>:
  \<^verbatim>\<open>
  loadings = []
  eigenvalues = []
  for i, group in enumerate(groups):
      print(f"  Analyzing Group {i + 1} ({GROUP_LABELS[i]})...")
      fa = FactorAnalyzer(rotation='varimax', method='principal', impute='drop',
                          n_factors=NUM_FACTORS)
      fa.fit(group)
      loadings.append(fa.loadings_)
      ev, _ = fa.get_eigenvalues()
      eigenvalues.append(ev)
      print(f"    Eigenvalues (first 3): {ev[:3]}")
  return loadings, eigenvalues
  \<close>
  The analyzer's fit, its loadings and its eigenvalues are one external routine, given
  the number of factors.
\<close>

fun fa_loop ::
  "'g lib \<Rightarrow> (nat \<times> ref) list \<Rightarrow> cell list list list \<Rightarrow> cell list list \<Rightarrow>
   ('g, cell list list list \<times> cell list list) prog" where
  "fa_loop lib [] loadings eigenvalues = ret (loadings, eigenvalues)"
| "fa_loop lib ((i, grp) # rest) loadings eigenvalues =
     seq (py_index GROUP_LABELS i) (\<lambda>label.
     seq (emit (PrintAnalyzing (i + 1) label)) (\<lambda>_.
     seq (call_on ''FactorAnalyzer.fit'' (factor_analyzer lib NUM_FACTORS) grp) (\<lambda>(ld, ev).
     seq (emit (PrintVals ''    Eigenvalues (first 3): '' (take 3 ev))) (\<lambda>_.
     fa_loop lib rest (loadings @ [ld]) (eigenvalues @ [ev])))))"

definition perform_factor_analysis ::
  "'g lib \<Rightarrow> ref list \<Rightarrow> ('g, cell list list list \<times> cell list list) prog" where
  "perform_factor_analysis lib groups =
     seq (emit (Print ''Performing factor analysis...'')) (\<lambda>_.
     fa_loop lib (enumerate 0 groups) [] [])"

section \<open>The pipeline of the factor analysis script\<close>

text \<open>
  \<^verbatim>\<open>main\<close>, from the point where \<^verbatim>\<open>read_csv\<close> has returned the frame (the
  banner and the loading of the file come before). The plots, the CSV export and the
  summary are outside the statistical core: each is one event of the trace.
  \<^verbatim>\<open>
  filtered_matrix = filter_data(matrix)
  if filtered_matrix.empty:
      return
  groups = prepare_format_groups(filtered_matrix)
  if any(len(group) == 0 for group in groups):
      print("Error: One or more groups have no data.")
      return
  chi_square, p_value, kmo_model = perform_adequacy_tests(filtered_matrix)
  loadings, eigenvalues = perform_factor_analysis(groups)
  create_scree_plot(eigenvalues, groups)
  create_loadings_heatmaps(loadings)
  save_loadings_to_csv(loadings[0], 0) ... save_loadings_to_csv(loadings[3], 3)
  print_summary(chi_square, p_value, kmo_model, eigenvalues)
  \<close>
\<close>

text \<open>The events that are calls of an external routine.\<close>

fun is_call :: "event \<Rightarrow> bool" where
  "is_call (Called name f) = True"
| "is_call _ = False"

definition any_empty :: "ref list \<Rightarrow> ('g, bool) prog" where
  "any_empty groups w = (Inr (\<exists>r \<in> set groups. df_len (heap w ! r) = 0), w)"

definition main :: "'g lib \<Rightarrow> ref \<Rightarrow> ('g, unit) prog" where
  "main lib matrix =
     seq (filter_data matrix) (\<lambda>filtered_matrix.
     seq (py_empty filtered_matrix) (\<lambda>e.
     if e then ret ()
     else
     seq (prepare_format_groups filtered_matrix) (\<lambda>groups.
     seq (any_empty groups) (\<lambda>e.
     if e then emit (Print ''Error: One or more groups have no data.'')
     else
     seq (perform_adequacy_tests lib filtered_matrix) (\<lambda>(chi_square, p_value, kmo_model).
     seq (perform_factor_analysis lib groups) (\<lambda>(loadings, eigenvalues).
     seq (emit (Export ''create_scree_plot'')) (\<lambda>_.
     seq (emit (Export ''create_loadings_heatmaps'')) (\<lambda>_.
     seq (emit (Export ''save_loadings_to_csv 0'')) (\<lambda>_.
     seq (emit (Export ''save_loadings_to_csv 1'')) (\<lambda>_.
     seq (emit (Export ''save_loadings_to_csv 2'')) (\<lambda>_.
     seq (emit (Export ''save_loadings_to_csv 3'')) (\<lambda>_.
     seq (emit (PrintVals ''ANALYSIS SUMMARY'' [chi_square, p_value, kmo_model])) (\<lambda>_.
     emit (Print ''Analysis complete!''))))))))))))))"

section \<open>The bootstrap of the correlation structure\<close>

text \<open>
  \<^verbatim>\<open>df.sample(frac=...)\<close> draws \<^verbatim>\<open>round(frac * len(df))\<close> rows without replacement
  from numpy's global generator, since no \<^verbatim>\<open>random_state\<close> is passed, and returns
  them as a new frame. Python's \<^verbatim>\<open>round\<close> rounds a half to the even neighbour.
\<close>

definition py_round :: "rat \<Rightarrow> int" where
  "py_round x =
     (let f = \<lfloor>x\<rfloor>; d = x - of_int f
      in if d < 1 / 2 then f else if d > 1 / 2 then f + 1 else if even f then f else f + 1)"

definition take_rows :: "'l frame \<Rightarrow> nat list \<Rightarrow> 'l frame" where
  "take_rows f ps =
     \<lparr>df_columns = df_columns f, df_index = map (\<lambda>p. df_index f ! p) ps,
      df_values = map (\<lambda>p. df_values f ! p) ps\<rparr>"

definition df_sample :: "'g lib \<Rightarrow> 'g \<Rightarrow> 'l frame \<Rightarrow> rat \<Rightarrow> 'l frame \<times> 'g" where
  "df_sample lib g f fr =
     (let k = nat (py_round (fr * of_nat (df_len f)));
          (ps, g') = rs_choice lib g (df_len f) k
      in (take_rows f ps, g'))"

definition py_sample :: "'g lib \<Rightarrow> ref \<Rightarrow> rat \<Rightarrow> ('g, ref) prog" where
  "py_sample lib r fr w =
     (let (s, g) = df_sample lib (rng w) (heap w ! r) fr
      in alloc s (w\<lparr>rng := g\<rparr>))"

definition py_corr :: "'g lib \<Rightarrow> ref \<Rightarrow> string \<Rightarrow> ('g, string frame) prog" where
  "py_corr lib r method = seq (load r) (\<lambda>f. lift (corr lib method f))"

text \<open>
  \<^verbatim>\<open>
  def bootstrap_correlation(mat1, mat2):
      df_1 = mat1.sample(frac=0.6)
      df_2 = mat2.sample(frac=0.6)
      corr_m1 = df_1.corr(method='kendall')
      corr_m2 = df_2.corr(method='kendall')
      res = stats.kendalltau(get_upper_triangle(corr_m1), get_upper_triangle(corr_m2))
      return res.statistic
  \<close>
\<close>

definition bootstrap_correlation :: "'g lib \<Rightarrow> ref \<Rightarrow> ref \<Rightarrow> ('g, cell) prog" where
  "bootstrap_correlation lib mat1 mat2 =
     seq (py_sample lib mat1 (6 / 10)) (\<lambda>df_1.
     seq (py_sample lib mat2 (6 / 10)) (\<lambda>df_2.
     seq (py_corr lib df_1 ''kendall'') (\<lambda>corr_m1.
     seq (py_corr lib df_2 ''kendall'') (\<lambda>corr_m2.
     seq (lift (get_upper_triangle (DataFrame corr_m1))) (\<lambda>u1.
     seq (lift (get_upper_triangle (DataFrame corr_m2))) (\<lambda>u2.
     lift (kendalltau lib u1 u2)))))))"






section \<open>Example inputs\<close>

text \<open>
  Small filtered matrices on which the statements below are evaluated. All rows are
  students who visit often. \<open>small_matrix\<close> has one row in each of the four groups;
  in \<open>stray_matrix\<close> the second row has a presentation format that is neither 1 nor 2;
  in \<open>half_matrix\<close> the first row has a \<open>hidden\<close> value between 50 and 51;
  \<open>lopsided_matrix\<close> has no row for the fourth group.
\<close>

definition small_matrix :: "nat frame" where
  "small_matrix =
     \<lparr>df_columns = [''uloga'', ''cesto'', ''formatUp'', ''hidden''] @ QUESTION_COLS,
      df_index = [0, 1, 2, 3],
      df_values = [[Num 2, Num 2, Num 1, Num 10] @ replicate 12 (Num 3),
                   [Num 2, Num 3, Num 1, Num 60] @ replicate 12 (Num 4),
                   [Num 2, Num 2, Num 2, Num 10] @ replicate 12 (Num 5),
                   [Num 2, Num 3, Num 2, Num 60] @ replicate 12 (Num 2)]\<rparr>"

definition small_items :: "nat frame" where
  "small_items =
     \<lparr>df_columns = QUESTION_COLS,
      df_index = [0, 1, 2, 3],
      df_values = [replicate 12 (Num 3), replicate 12 (Num 4),
                   replicate 12 (Num 5), replicate 12 (Num 2)]\<rparr>"

definition stray_matrix :: "nat frame" where
  "stray_matrix =
     \<lparr>df_columns = [''uloga'', ''cesto'', ''formatUp'', ''hidden''] @ QUESTION_COLS,
      df_index = [0, 1],
      df_values = [[Num 2, Num 2, Num 1, Num 10] @ replicate 12 (Num 3),
                   [Num 2, Num 2, Num 3, Num 60] @ replicate 12 (Num 4)]\<rparr>"

definition half_matrix :: "nat frame" where
  "half_matrix =
     \<lparr>df_columns = [''uloga'', ''cesto'', ''formatUp'', ''hidden''] @ QUESTION_COLS,
      df_index = [0, 1],
      df_values = [[Num 2, Num 2, Num 1, Num (101 / 2)] @ replicate 12 (Num 3),
                   [Num 2, Num 2, Num 2, Num 10] @ replicate 12 (Num 4)]\<rparr>"

definition lopsided_matrix :: "nat frame" where
  "lopsided_matrix =
     \<lparr>df_columns = [''uloga'', ''cesto'', ''formatUp'', ''hidden''] @ QUESTION_COLS,
      df_index = [0, 1, 2],
      df_values = [[Num 2, Num 2, Num 1, Num 10] @ replicate 12 (Num 3),
                   [Num 2, Num 3, Num 1, Num 60] @ replicate 12 (Num 4),
                   [Num 2, Num 2, Num 2, Num 10] @ replicate 12 (Num 5)]\<rparr>"

text \<open>
  A stand-in for the external routines, for evaluating a run on the example inputs.
  The sphericity statistic is minus infinity with a p-value of 1, the value for a
  singular correlation matrix (in every example input the twelve item columns are
  equal); the percentile of an empty sample raises IndexError, as numpy's does; every
  other statistic is NaN. The generator is a counter, and a draw takes the positions
  that follow the counter, cyclically.
\<close>

definition nan_lib :: "nat lib" where
  "nan_lib =
     \<lparr>calculate_bartlett_sphericity = (\<lambda>f. Inr (NegInf, Num 1)),
      calculate_kmo = (\<lambda>f. Inr (map (\<lambda>c. NaN) (df_columns f), NaN)),
      factor_analyzer = (\<lambda>k f. Inr (map (\<lambda>c. replicate k NaN) (df_columns f),
                                       map (\<lambda>c. NaN) (df_columns f))),
      rs_choice = (\<lambda>g n k. (map (\<lambda>i. (g + i) mod n) [0..<k], Suc g)),
      corr = (\<lambda>method f. Inr \<lparr>df_columns = df_columns f, df_index = df_columns f,
                                  df_values = map (\<lambda>c. map (\<lambda>d. if c = d then Num 1 else NaN)
                                                        (df_columns f)) (df_columns f)\<rparr>),
      kendalltau = (\<lambda>x y. if length x = length y then Inr NaN else Inl ValueError),
      np_percentile = (\<lambda>xs q. if xs = [] then Inl IndexError else Inr NaN),
      np_mean = (\<lambda>xs. Inr NaN)\<rparr>"

text \<open>The state of a run that has loaded one frame and printed nothing yet.\<close>

definition start :: "nat frame \<Rightarrow> 'g \<Rightarrow> 'g world" where
  "start f g = \<lparr>heap = [f], out = [], rng = g\<rparr>"

section \<open>Auxiliary predicates on programs\<close>

text \<open>
  \<open>grows m\<close>: a run of \<open>m\<close> leaves every object of the store as it was and may add new
  ones behind them. \<open>quiet m\<close>: a run of \<open>m\<close> calls no external routine.
  \<open>calls_of name evs\<close>: the frames on which the routine \<open>name\<close> was called in the
  trace \<open>evs\<close>, in order. \<open>silent name m\<close>: a run of \<open>m\<close> does not call it.
\<close>

definition grows :: "('g, 'a) prog \<Rightarrow> bool" where
  "grows m \<longleftrightarrow> (\<forall>w. \<exists>ys. heap (snd (m w)) = heap w @ ys)"

fun calls_of :: "string \<Rightarrow> event list \<Rightarrow> nat frame list" where
  "calls_of name [] = []"
| "calls_of name (Called n f # evs) =
     (if n = name then f # calls_of name evs else calls_of name evs)"
| "calls_of name (_ # evs) = calls_of name evs"

definition silent :: "string \<Rightarrow> ('g, 'a) prog \<Rightarrow> bool" where
  "silent name m \<longleftrightarrow> (\<forall>w. calls_of name (out (snd (m w))) = calls_of name (out w))"

definition quiet :: "('g, 'a) prog \<Rightarrow> bool" where
  "quiet m \<longleftrightarrow> (\<forall>w. filter is_call (out (snd (m w))) = filter is_call (out w))"

section \<open>Properties of the upper triangle\<close>

lemma set_triu_indices: "set (triu_indices n) = {(i, j). i < j \<and> j < n}"
  by (fastforce simp: triu_indices_def)

lemma triu_row_inj:
  assumes "x < n" "y < n" "map (Pair x) [Suc x..<n] = map (Pair y) [Suc y..<n]"
  shows "x = y"
proof (cases "Suc x < n")
  case True
  then have "[Suc x..<n] = Suc x # [Suc (Suc x)..<n]"
    by (simp add: upt_conv_Cons)
  with assms(3) show ?thesis
    by (cases "[Suc y..<n]") auto
next
  case False
  with assms have "[Suc y..<n] = []"
    by simp
  with assms False show ?thesis
    by simp
qed

lemma distinct_triu_indices: "distinct (triu_indices n)"
  unfolding triu_indices_def
  by (rule distinct_concat) (auto simp: distinct_map inj_on_def intro: triu_row_inj)

lemma length_triu_indices: "length (triu_indices n) = n * (n - 1) div 2"
proof -
  have "length (triu_indices n) = (\<Sum>i\<leftarrow>[0..<n]. n - Suc i)"
    by (simp add: triu_indices_def length_concat comp_def)
  also have "\<dots> = (\<Sum>i<n. n - Suc i)"
    by (simp add: interv_sum_list_conv_sum_set_nat atLeast0LessThan)
  also have "\<dots> = (\<Sum>i<n. i)"
    by (rule sum.nat_diff_reindex)
  also have "\<dots> = n * (n - 1) div 2"
    by (cases n)
      (simp_all add: lessThan_Suc_atMost atMost_atLeast0 gauss_sum_nat mult.commute
        del: sum.lessThan_Suc)
  finally show ?thesis .
qed

lemma take_at_ok:
  "\<forall>(i, j) \<in> set ps. i < length a \<and> j < length (a ! i) \<Longrightarrow>
   take_at a ps = Inr (map (\<lambda>(i, j). a ! i ! j) ps)"
  by (induction ps) auto

lemma upper_of_square:
  "square n a \<Longrightarrow> upper_of a = Inr (map (\<lambda>(i, j). a ! i ! j) (triu_indices n))"
  unfolding upper_of_def square_def
  by (auto intro!: take_at_ok simp: set_triu_indices)

text \<open>
  Claim C3. On a square \<open>n \<times> n\<close> matrix (in particular for \<open>n \<ge> 2\<close>), given as a data
  frame, as the correlation matrices of \<^verbatim>\<open>df.corr\<close> are, or as an array,
  \<^verbatim>\<open>get_upper_triangle\<close> returns the entries at the positions \<open>(i, j)\<close> with
  \<open>i < j < n\<close>, row by row: a flat sequence of \<open>n (n - 1) / 2\<close> values. The positions
  are exactly the strictly upper ones, so no diagonal position is among them and of
  two mirrored positions only the upper one; none is taken twice.
\<close>

theorem get_upper_triangle_strictly_upper:
  assumes "square n a" and "df_values f = a"
  shows "get_upper_triangle (DataFrame f) = Inr (map (\<lambda>(i, j). a ! i ! j) (triu_indices n))
    \<and> get_upper_triangle (NDArray a) = Inr (map (\<lambda>(i, j). a ! i ! j) (triu_indices n))
    \<and> length (map (\<lambda>(i, j). a ! i ! j) (triu_indices n)) = n * (n - 1) div 2
    \<and> set (triu_indices n) = {(i, j). i < j \<and> j < n}
    \<and> distinct (triu_indices n)"
  using assms
  by (simp add: upper_of_square length_triu_indices set_triu_indices distinct_triu_indices)

theorem get_upper_triangle_strictly_upper_witness:
  "square 3 [[Num 1, Num 2, Num 3], [Num 2, Num 1, Num 5], [Num 3, Num 5, Num 1]]
   \<and> get_upper_triangle
        (DataFrame \<lparr>df_columns = [''g01'', ''g02'', ''g03''], df_index = [''g01'', ''g02'', ''g03''],
                    df_values = [[Num 1, Num 2, Num 3], [Num 2, Num 1, Num 5],
                                 [Num 3, Num 5, Num 1]]\<rparr>)
      = Inr [Num 2, Num 3, Num 5]
   \<and> get_upper_triangle
        (NDArray [[Num 1, Num 2, Num 3], [Num 2, Num 1, Num 5], [Num 3, Num 5, Num 1]]
          :: string pyobj)
      = Inr [Num 2, Num 3, Num 5]
   \<and> length [Num 2, Num 3, Num 5] = 3 * (3 - 1) div (2 :: nat)
   \<and> set (triu_indices 3) = {(0, 1), (0, 2), (1, 2)}
   \<and> distinct (triu_indices 3)"
proof -
  have sq: "square 3 [[Num 1, Num 2, Num 3], [Num 2, Num 1, Num 5], [Num 3, Num 5, Num 1]]"
    by (simp add: square_def)
  have fr: "df_values \<lparr>df_columns = [''g01'', ''g02'', ''g03''],
                        df_index = [''g01'', ''g02'', ''g03''],
                        df_values = [[Num 1, Num 2, Num 3], [Num 2, Num 1, Num 5],
                                     [Num 3, Num 5, Num 1]]\<rparr>
            = [[Num 1, Num 2, Num 3], [Num 2, Num 1, Num 5], [Num 3, Num 5, Num 1]]"
    by simp
  have ix: "triu_indices 3 = [(0, 1), (0, 2), (1, 2)]"
    by code_simp
  show ?thesis
    using get_upper_triangle_strictly_upper [OF sq fr, where ?'b = string] sq
    by (simp add: ix)
qed

text \<open>
  Claim C10. An argument that is neither a numpy array nor a data frame makes
  \<^verbatim>\<open>get_upper_triangle\<close> raise TypeError, whatever it holds; a data frame is
  replaced by its array of values, so the result is that of the array.
\<close>

theorem get_upper_triangle_type_check:
  "(\<not> is_ndarray x \<and> \<not> is_dataframe x \<longrightarrow> get_upper_triangle x = Inl TypeError)
   \<and> get_upper_triangle (DataFrame f) = get_upper_triangle (NDArray (df_values f))"
  by (cases x) simp_all

theorem get_upper_triangle_type_check_witness:
  "\<not> is_ndarray (PyList [PyInt 1, PyStr ''a''] :: string pyobj)
   \<and> \<not> is_dataframe (PyList [PyInt 1, PyStr ''a''] :: string pyobj)
   \<and> get_upper_triangle (PyList [PyInt 1, PyStr ''a''] :: string pyobj) = Inl TypeError
   \<and> get_upper_triangle
        (DataFrame \<lparr>df_columns = [''g01'', ''g02''], df_index = [''g01'', ''g02''],
                    df_values = [[Num 1, Num (1 / 2)], [Num (1 / 2), Num 1]]\<rparr>)
      = Inr [Num (1 / 2)]"
proof -
  have "get_upper_triangle
          (NDArray [[Num 1, Num (1 / 2)], [Num (1 / 2), Num 1]] :: string pyobj)
        = Inr [Num (1 / 2)]"
    by (simp add: upper_of_def triu_indices_def)
  then show ?thesis
    using get_upper_triangle_type_check
      [of "PyList [PyInt 1, PyStr ''a'']"
          "\<lparr>df_columns = [''g01'', ''g02''], df_index = [''g01'', ''g02''],
            df_values = [[Num 1, Num (1 / 2)], [Num (1 / 2), Num 1]]\<rparr>"]
    by simp
qed

section \<open>Properties of the frame operations\<close>

lemma keep_simps [simp]:
  "keep [] xs = []"
  "keep bs [] = []"
  "keep (b # bs) (x # xs) = (if b then x # keep bs xs else keep bs xs)"
  by (simp_all add: keep_def)

lemma map_keep: "map f (keep bs xs) = keep bs (map f xs)"
proof (induction bs arbitrary: xs)
  case Nil
  show ?case by simp
next
  case (Cons b bs)
  then show ?case by (cases xs) simp_all
qed

lemma keep_all: "length bs = length xs \<Longrightarrow> \<forall>b \<in> set bs. b \<Longrightarrow> keep bs xs = xs"
  by (induction bs xs rule: list_induct2) auto

lemma keep_map_filter:
  "length xs = length ks \<Longrightarrow> length (keep (map P ks) xs) = length (filter P ks)"
  by (induction xs ks rule: list_induct2) simp_all

lemma set_keep_subset: "set (keep bs xs) \<subseteq> set xs"
proof (induction bs arbitrary: xs)
  case Nil
  show ?case by simp
next
  case (Cons b bs)
  then show ?case by (cases xs) auto
qed

lemma distinct_keep: "distinct xs \<Longrightarrow> distinct (keep bs xs)"
proof (induction bs arbitrary: xs)
  case Nil
  show ?case by simp
next
  case (Cons b bs)
  show ?case
  proof (cases xs)
    case Nil
    then show ?thesis by simp
  next
    case (Cons y ys)
    with Cons.prems Cons.IH [of ys] set_keep_subset [of bs ys] show ?thesis
      by auto
  qed
qed

lemma keep_disjoint:
  "length xs = length ks \<Longrightarrow> distinct xs \<Longrightarrow> \<forall>k \<in> set ks. \<not> (P k \<and> Q k) \<Longrightarrow>
   set (keep (map P ks) xs) \<inter> set (keep (map Q ks) xs) = {}"
proof (induction xs ks rule: list_induct2)
  case Nil
  show ?case by simp
next
  case (Cons x xs k ks)
  have "x \<notin> set (keep (map P ks) xs)" "x \<notin> set (keep (map Q ks) xs)"
    using Cons.prems(1) set_keep_subset by fastforce+
  with Cons show ?case by auto
qed

lemma four_way_count:
  "\<forall>k \<in> set ks. (P1 k \<or> P2 k \<or> P3 k \<or> P4 k) \<and> \<not> (P1 k \<and> P2 k) \<and> \<not> (P1 k \<and> P3 k)
      \<and> \<not> (P1 k \<and> P4 k) \<and> \<not> (P2 k \<and> P3 k) \<and> \<not> (P2 k \<and> P4 k) \<and> \<not> (P3 k \<and> P4 k) \<Longrightarrow>
   length (filter P1 ks) + length (filter P2 ks) + length (filter P3 ks) + length (filter P4 ks)
     = length ks"
  by (induction ks) auto

lemma series_and_zip:
  "series_and (map f xs) (map g ys) = map (\<lambda>(x, y). f x \<and> g y) (zip xs ys)"
  by (auto simp: series_and_def zip_map_map)

lemma col_pos_Some: "c \<in> set cs \<Longrightarrow> \<exists>k. col_pos cs c = Some k \<and> k < length cs \<and> cs ! k = c"
  by (induction cs) auto

lemma getitem_col_of_cols:
  assumes "getitem_cols m cs = Inr g" "c \<in> set cs"
  shows "getitem_col g c = getitem_col m c"
proof -
  from assms(2) obtain k where k: "col_pos cs c = Some k" "k < length cs" "cs ! k = c"
    using col_pos_Some by blast
  from assms have "col_pos (df_columns m) c \<noteq> None"
    by (auto simp: getitem_cols_def split: if_splits)
  then obtain j where j: "col_pos (df_columns m) c = Some j"
    by auto
  from assms(1) have g: "df_columns g = cs"
    "df_values g = map (\<lambda>row. map (\<lambda>c. row ! the (col_pos (df_columns m) c)) cs) (df_values m)"
    by (auto simp: getitem_cols_def split: if_splits)
  show ?thesis
    using k j by (simp add: getitem_col_def g)
qed

lemma drop_of_cols:
  assumes "getitem_cols m (a # b # cs) = Inr g" "a \<notin> set cs" "b \<notin> set cs"
  shows "\<exists>items. getitem_cols m cs = Inr items
           \<and> drop_cols (getitem_mask g bs) [a, b] = Inr (getitem_mask items bs)"
proof -
  have ok: "\<forall>c \<in> set (a # b # cs). col_pos (df_columns m) c \<noteq> None"
    using assms(1) by (auto simp: getitem_cols_def split: if_splits)
  then have items: "getitem_cols m cs =
     Inr \<lparr>df_columns = cs, df_index = df_index m,
          df_values = map (\<lambda>row. map (\<lambda>c. row ! the (col_pos (df_columns m) c)) cs)
                        (df_values m)\<rparr>"
    by (simp add: getitem_cols_def)
  have g: "g = \<lparr>df_columns = a # b # cs, df_index = df_index m,
          df_values = map (\<lambda>row. map (\<lambda>c. row ! the (col_pos (df_columns m) c)) (a # b # cs))
                        (df_values m)\<rparr>"
    using assms(1) ok by (simp add: getitem_cols_def)
  have f: "filter (\<lambda>c. c \<noteq> a \<and> c \<noteq> b) cs = cs"
    using assms(2,3) by (auto intro: filter_True)
  have k: "keep (map (\<lambda>c. c \<noteq> a \<and> c \<noteq> b) cs) (map h cs) = map h cs"
    for h :: "string \<Rightarrow> cell"
    using assms(2,3) by (intro keep_all) auto
  show ?thesis
    unfolding items
    by (simp add: g drop_cols_def getitem_mask_def f map_keep k comp_def)
qed

lemma getitem_cols_split:
  "(\<exists>grid. getitem_cols m (a # b # cs) = Inr grid) \<longleftrightarrow>
   (\<exists>fu hi items. getitem_col m a = Inr fu \<and> getitem_col m b = Inr hi
      \<and> getitem_cols m cs = Inr items)"
  by (auto simp: getitem_cols_def getitem_col_def split: option.splits)

lemma question_cols_fresh:
  "''formatUp'' \<notin> set QUESTION_COLS" "''hidden'' \<notin> set QUESTION_COLS"
  by (simp_all add: QUESTION_COLS_def)

lemma groups_of_input:
  assumes fu: "getitem_col m ''formatUp'' = Inr fu"
    and hi: "getitem_col m ''hidden'' = Inr hi"
    and items: "getitem_cols m QUESTION_COLS = Inr items"
  obtains grid where
    "getitem_cols m ([''formatUp'', ''hidden''] @ QUESTION_COLS) = Inr grid"
    "getitem_col grid ''formatUp'' = Inr fu"
    "getitem_col grid ''hidden'' = Inr hi"
    "\<And>bs. drop_cols (getitem_mask grid bs) [''formatUp'', ''hidden'']
            = Inr (getitem_mask items bs)"
proof -
  from assms obtain grid where
    grid: "getitem_cols m (''formatUp'' # ''hidden'' # QUESTION_COLS) = Inr grid"
    using getitem_cols_split [of m "''formatUp''" "''hidden''" QUESTION_COLS] by auto
  have "getitem_col grid ''formatUp'' = Inr fu" "getitem_col grid ''hidden'' = Inr hi"
    using getitem_col_of_cols [OF grid] fu hi by simp_all
  moreover have "drop_cols (getitem_mask grid bs) [''formatUp'', ''hidden'']
      = Inr (getitem_mask items bs)" for bs
    using drop_of_cols [OF grid question_cols_fresh, of bs] items by auto
  ultimately show ?thesis
    using that grid by simp
qed

section \<open>The partition into format groups\<close>

lemmas run_defs = seq_def ret_def raise_def lift_def alloc_def load_def store_def emit_def
  py_copy_def py_getitem_cols_def py_getitem_col_def py_getitem_mask_def py_drop_inplace_def
  py_dropna_def py_len_def py_empty_def py_index_def

text \<open>
  What a run of either partitioner leaves behind when the fourteen columns are there:
  the selected grid, and for each condition the masked copy of the grid, cut down in
  place to the item columns. All of them are new objects behind the old ones.
\<close>

lemma pfg_run:
  assumes "matrix < length (heap w)"
    and "getitem_cols (heap w ! matrix) ([''formatUp'', ''hidden''] @ QUESTION_COLS) = Inr grid"
    and "getitem_col grid ''formatUp'' = Inr fu"
    and "getitem_col grid ''hidden'' = Inr hi"
    and "drop_cols (getitem_mask grid (series_and (series_eq fu 1) (series_lt hi 51)))
           [''formatUp'', ''hidden''] = Inr g1"
    and "drop_cols (getitem_mask grid (series_and (series_eq fu 1) (series_gt hi 50)))
           [''formatUp'', ''hidden''] = Inr g2"
    and "drop_cols (getitem_mask grid (series_and (series_eq fu 2) (series_lt hi 51)))
           [''formatUp'', ''hidden''] = Inr g3"
    and "drop_cols (getitem_mask grid (series_and (series_eq fu 2) (series_gt hi 50)))
           [''formatUp'', ''hidden''] = Inr g4"
  shows "prepare_format_groups matrix w =
     (Inr [length (heap w) + 3, length (heap w) + 5, length (heap w) + 7, length (heap w) + 9],
      w\<lparr>heap := heap w @ [grid, grid,
             getitem_mask grid (series_and (series_eq fu 1) (series_lt hi 51)), g1,
             getitem_mask grid (series_and (series_eq fu 1) (series_gt hi 50)), g2,
             getitem_mask grid (series_and (series_eq fu 2) (series_lt hi 51)), g3,
             getitem_mask grid (series_and (series_eq fu 2) (series_gt hi 50)), g4],
         out := out w @ [Print ''Preparing format groups...'',
            PrintGroup 1 ''Single Page - Order A'' (df_len g1),
            PrintGroup 2 ''Single Page - Order B'' (df_len g2),
            PrintGroup 3 ''Slides - Order A'' (df_len g3),
            PrintGroup 4 ''Slides - Order B'' (df_len g4)]\<rparr>)"
  using assms
  by (simp add: prepare_format_groups_def conditions_def cond_lt_def cond_gt_def run_defs
      HIDDEN_THRESHOLD_def GROUP_LABELS_def enumerate_eq_zip nth_append list_update_append)

lemma pfg_hm_run:
  assumes "matrix < length (heap w)"
    and "getitem_cols (heap w ! matrix) ([''formatUp'', ''hidden''] @ QUESTION_COLS) = Inr grid"
    and "getitem_col grid ''formatUp'' = Inr fu"
    and "getitem_col grid ''hidden'' = Inr hi"
    and "drop_cols (getitem_mask grid (series_and (series_eq fu 1) (series_lt hi 51)))
           [''formatUp'', ''hidden''] = Inr g1"
    and "drop_cols (getitem_mask grid (series_and (series_eq fu 1) (series_gt hi 50)))
           [''formatUp'', ''hidden''] = Inr g2"
    and "drop_cols (getitem_mask grid (series_and (series_eq fu 2) (series_lt hi 51)))
           [''formatUp'', ''hidden''] = Inr g3"
    and "drop_cols (getitem_mask grid (series_and (series_eq fu 2) (series_gt hi 50)))
           [''formatUp'', ''hidden''] = Inr g4"
  shows "prepare_format_groups_hm matrix w =
     (Inr [length (heap w) + 2, length (heap w) + 4, length (heap w) + 6, length (heap w) + 8],
      w\<lparr>heap := heap w @ [grid,
             getitem_mask grid (series_and (series_eq fu 1) (series_lt hi 51)), g1,
             getitem_mask grid (series_and (series_eq fu 1) (series_gt hi 50)), g2,
             getitem_mask grid (series_and (series_eq fu 2) (series_lt hi 51)), g3,
             getitem_mask grid (series_and (series_eq fu 2) (series_gt hi 50)), g4]\<rparr>)"
  using assms
  by (simp add: prepare_format_groups_hm_def form_lt_def form_gt_def cond_lt_def cond_gt_def
      run_defs QUESTION_COLS_def nth_append list_update_append)

lemma pfg_fail:
  assumes "getitem_cols (heap w ! matrix) ([''formatUp'', ''hidden''] @ QUESTION_COLS) = Inl e"
  shows "prepare_format_groups matrix w
           = (Inl e, w\<lparr>out := out w @ [Print ''Preparing format groups...'']\<rparr>)"
    and "prepare_format_groups_hm matrix w = (Inl e, w)"
  using assms
  by (simp_all add: prepare_format_groups_def prepare_format_groups_hm_def run_defs
      QUESTION_COLS_def)

text \<open>
  The four conditions as functions of a row's \<open>formatUp\<close> and \<open>hidden\<close> values.
\<close>

lemma mask_forms:
  "series_and (series_eq fu k) (series_lt hi h)
     = map (\<lambda>(c, d). cell_eq c k \<and> cell_lt d h) (zip fu hi)"
  "series_and (series_eq fu k) (series_gt hi h)
     = map (\<lambda>(c, d). cell_eq c k \<and> cell_gt d h) (zip fu hi)"
  by (simp_all add: series_eq_def series_lt_def series_gt_def series_and_zip)

lemma partition_columns:
  assumes items: "getitem_cols m QUESTION_COLS = Inr items"
  shows "df_columns (getitem_mask items bs) = QUESTION_COLS"
  using items by (auto simp: getitem_mask_def getitem_cols_def split: if_splits)

lemma partition_disjoint:
  assumes wf: "wf_frame m"
    and fu: "getitem_col m ''formatUp'' = Inr fu"
    and hi: "getitem_col m ''hidden'' = Inr hi"
    and items: "getitem_cols m QUESTION_COLS = Inr items"
    and hid: "\<forall>c \<in> set hi. \<not> (cell_lt c 51 \<and> cell_gt c 50)"
    and G: "G = map (getitem_mask items)
              [series_and (series_eq fu 1) (series_lt hi 51),
               series_and (series_eq fu 1) (series_gt hi 50),
               series_and (series_eq fu 2) (series_lt hi 51),
               series_and (series_eq fu 2) (series_gt hi 50)]"
  shows "distinct (concat (map df_index G))"
proof -
  let ?ks = "zip fu hi"
  have len: "length fu = length (df_values m)" "length hi = length (df_values m)"
    using fu hi by (auto simp: getitem_col_def split: option.splits)
  have idx: "length (df_index m) = length ?ks" "distinct (df_index m)"
    using wf len by (simp_all add: wf_frame_def)
  have it: "df_index items = df_index m"
    using items by (auto simp: getitem_cols_def split: if_splits)
  have ks: "\<forall>(c, d) \<in> set ?ks. \<not> (cell_lt d 51 \<and> cell_gt d 50)"
    using hid by (auto dest: set_zip_rightD)
  have ne: "\<not> (cell_eq c 1 \<and> cell_eq c 2)" for c
    by (cases c) simp_all
  have dis: "set (keep (map P ?ks) (df_index m)) \<inter> set (keep (map Q ?ks) (df_index m)) = {}"
    if "\<forall>k \<in> set ?ks. \<not> (P k \<and> Q k)" for P Q
    using keep_disjoint [OF idx that] .
  have dk: "distinct (keep bs (df_index m))" for bs
    using idx(2) by (rule distinct_keep)
  show ?thesis
    unfolding G using ks ne
    by (simp add: getitem_mask_def it mask_forms dk Int_Un_distrib Int_Un_distrib2)
       (intro conjI dis; fastforce)
qed

lemma partition_count:
  assumes fu: "getitem_col m ''formatUp'' = Inr fu"
    and hi: "getitem_col m ''hidden'' = Inr hi"
    and items: "getitem_cols m QUESTION_COLS = Inr items"
    and fmt: "\<forall>c \<in> set fu. cell_eq c 1 \<or> cell_eq c 2"
    and hid: "\<forall>c \<in> set hi. cell_lt c 51 \<noteq> cell_gt c 50"
    and G: "G = map (getitem_mask items)
              [series_and (series_eq fu 1) (series_lt hi 51),
               series_and (series_eq fu 1) (series_gt hi 50),
               series_and (series_eq fu 2) (series_lt hi 51),
               series_and (series_eq fu 2) (series_gt hi 50)]"
  shows "sum_list (map df_len G) = df_len m"
proof -
  let ?ks = "zip fu hi"
  have len: "length fu = length (df_values m)" "length hi = length (df_values m)"
    using fu hi by (auto simp: getitem_col_def split: option.splits)
  have it: "length (df_values items) = length ?ks"
    using items len by (auto simp: getitem_cols_def split: if_splits)
  have ks: "\<forall>(c, d) \<in> set ?ks. (cell_eq c 1 \<or> cell_eq c 2) \<and> cell_lt d 51 \<noteq> cell_gt d 50"
    using fmt hid by (auto dest: set_zip_leftD set_zip_rightD)
  have ne: "\<not> (cell_eq c 1 \<and> cell_eq c 2)" for c
    by (cases c) simp_all
  have "length (filter (\<lambda>(c, d). cell_eq c 1 \<and> cell_lt d 51) ?ks)
      + length (filter (\<lambda>(c, d). cell_eq c 1 \<and> cell_gt d 50) ?ks)
      + length (filter (\<lambda>(c, d). cell_eq c 2 \<and> cell_lt d 51) ?ks)
      + length (filter (\<lambda>(c, d). cell_eq c 2 \<and> cell_gt d 50) ?ks) = length ?ks"
    by (rule four_way_count) (use ks ne in fastforce)
  then show ?thesis
    unfolding G using len
    by (simp add: df_len_def getitem_mask_def mask_forms keep_map_filter it)
qed

text \<open>
  Claim C2, as the code has it. On every filtered matrix that has the fourteen columns,
  either partitioner returns four groups, and each group is the item columns of the
  input restricted to the rows where its own condition holds on the input's
  \<open>formatUp\<close> and \<open>hidden\<close> columns: the four masks are computed from the input, none
  from a group produced before. Every group has the twelve item columns, \<open>formatUp\<close>
  and \<open>hidden\<close> not among them. When the input is well formed and no \<open>hidden\<close> value
  lies strictly between 50 and 51, no row label occurs in two groups or twice in one.
  When every presentation format is 1 or 2 and exactly one of \<open>hidden < 51\<close> and
  \<open>hidden > 50\<close> holds in every row (the value is not missing and not strictly between
  50 and 51), the row counts add up to the input's.
\<close>

theorem prepare_format_groups_partition:
  assumes "matrix < length (heap w)"
    and "getitem_col (heap w ! matrix) ''formatUp'' = Inr fu"
    and "getitem_col (heap w ! matrix) ''hidden'' = Inr hi"
    and "getitem_cols (heap w ! matrix) QUESTION_COLS = Inr items"
    and "prep = prepare_format_groups \<or> prep = prepare_format_groups_hm"
  shows "\<exists>gs w'. prep matrix w = (Inr gs, w') \<and>
    (let G = map (\<lambda>g. heap w' ! g) gs in
       G = map (getitem_mask items)
             [series_and (series_eq fu 1) (series_lt hi 51),
              series_and (series_eq fu 1) (series_gt hi 50),
              series_and (series_eq fu 2) (series_lt hi 51),
              series_and (series_eq fu 2) (series_gt hi 50)]
       \<and> (\<forall>g \<in> set G. df_columns g = QUESTION_COLS \<and> length (df_columns g) = 12
             \<and> ''formatUp'' \<notin> set (df_columns g) \<and> ''hidden'' \<notin> set (df_columns g))
       \<and> (wf_frame (heap w ! matrix) \<and> (\<forall>c \<in> set hi. \<not> (cell_lt c 51 \<and> cell_gt c 50))
             \<longrightarrow> distinct (concat (map df_index G)))
       \<and> ((\<forall>c \<in> set fu. cell_eq c 1 \<or> cell_eq c 2) \<and> (\<forall>c \<in> set hi. cell_lt c 51 \<noteq> cell_gt c 50)
             \<longrightarrow> sum_list (map df_len G) = df_len (heap w ! matrix)))"
proof -
  define G where "G = map (getitem_mask items)
             [series_and (series_eq fu 1) (series_lt hi 51),
              series_and (series_eq fu 1) (series_gt hi 50),
              series_and (series_eq fu 2) (series_lt hi 51),
              series_and (series_eq fu 2) (series_gt hi 50)]"
  have cols: "\<forall>g \<in> set G. df_columns g = QUESTION_COLS \<and> length (df_columns g) = 12
             \<and> ''formatUp'' \<notin> set (df_columns g) \<and> ''hidden'' \<notin> set (df_columns g)"
    using question_cols_fresh
    by (simp add: G_def partition_columns [OF assms(4)]) (simp add: QUESTION_COLS_def)
  have dis: "wf_frame (heap w ! matrix) \<and> (\<forall>c \<in> set hi. \<not> (cell_lt c 51 \<and> cell_gt c 50))
             \<longrightarrow> distinct (concat (map df_index G))"
    using partition_disjoint [OF _ assms(2-4) _ G_def] by blast
  have cnt: "(\<forall>c \<in> set fu. cell_eq c 1 \<or> cell_eq c 2) \<and> (\<forall>c \<in> set hi. cell_lt c 51 \<noteq> cell_gt c 50)
             \<longrightarrow> sum_list (map df_len G) = df_len (heap w ! matrix)"
    using partition_count [OF assms(2-4) _ _ G_def] by blast
  obtain grid where grid:
    "getitem_cols (heap w ! matrix) ([''formatUp'', ''hidden''] @ QUESTION_COLS) = Inr grid"
    "getitem_col grid ''formatUp'' = Inr fu"
    "getitem_col grid ''hidden'' = Inr hi"
    "\<And>bs. drop_cols (getitem_mask grid bs) [''formatUp'', ''hidden'']
            = Inr (getitem_mask items bs)"
    using groups_of_input [OF assms(2-4)] by blast
  note r1 = pfg_run [OF assms(1) grid(1-3) grid(4) grid(4) grid(4) grid(4)]
  note r2 = pfg_hm_run [OF assms(1) grid(1-3) grid(4) grid(4) grid(4) grid(4)]
  have e1: "prepare_format_groups matrix w
      = (Inr (projr (fst (prepare_format_groups matrix w))), snd (prepare_format_groups matrix w))"
    by (simp add: r1)
  have g1: "map (\<lambda>g. heap (snd (prepare_format_groups matrix w)) ! g)
              (projr (fst (prepare_format_groups matrix w))) = G"
    by (simp add: r1 G_def nth_append)
  have e2: "prepare_format_groups_hm matrix w
      = (Inr (projr (fst (prepare_format_groups_hm matrix w))),
         snd (prepare_format_groups_hm matrix w))"
    by (simp add: r2)
  have g2: "map (\<lambda>g. heap (snd (prepare_format_groups_hm matrix w)) ! g)
              (projr (fst (prepare_format_groups_hm matrix w))) = G"
    by (simp add: r2 G_def nth_append)
  from assms(5) show ?thesis
  proof
    assume p: "prep = prepare_format_groups"
    show ?thesis
      unfolding p Let_def
      apply (rule exI [of _ "projr (fst (prepare_format_groups matrix w))"])
      apply (rule exI [of _ "snd (prepare_format_groups matrix w)"])
      unfolding g1
      using e1 cols dis cnt G_def by blast
  next
    assume p: "prep = prepare_format_groups_hm"
    show ?thesis
      unfolding p Let_def
      apply (rule exI [of _ "projr (fst (prepare_format_groups_hm matrix w))"])
      apply (rule exI [of _ "snd (prepare_format_groups_hm matrix w)"])
      unfolding g2
      using e2 cols dis cnt G_def by blast
  qed
qed

theorem prepare_format_groups_partition_witness:
  "(\<exists>gs w'. prepare_format_groups_hm 0 (start small_matrix ()) = (Inr gs, w')
      \<and> map (\<lambda>g. heap w' ! g) gs
          = map (getitem_mask small_items)
              [[True, False, False, False], [False, True, False, False],
               [False, False, True, False], [False, False, False, True]]
      \<and> distinct (concat (map df_index (map (\<lambda>g. heap w' ! g) gs)))
      \<and> sum_list (map df_len (map (\<lambda>g. heap w' ! g) gs)) = df_len small_matrix)
   \<and> (\<exists>gs w'. prepare_format_groups 0 (start half_matrix ()) = (Inr gs, w')
      \<and> map df_index (map (\<lambda>g. heap w' ! g) gs) = [[0], [0], [1], []]
      \<and> map df_columns (map (\<lambda>g. heap w' ! g) gs) = replicate 4 QUESTION_COLS)"
proof -
  have s1: "0 < length (heap (start small_matrix ()))"
    by (simp add: start_def)
  have s2: "wf_frame (heap (start small_matrix ()) ! 0)"
    by (simp add: start_def small_matrix_def wf_frame_def QUESTION_COLS_def)
  have s3: "getitem_col (heap (start small_matrix ()) ! 0) ''formatUp''
              = Inr [Num 1, Num 1, Num 2, Num 2]"
    by (simp add: start_def small_matrix_def getitem_col_def)
  have s4: "getitem_col (heap (start small_matrix ()) ! 0) ''hidden''
              = Inr [Num 10, Num 60, Num 10, Num 60]"
    by (simp add: start_def small_matrix_def getitem_col_def)
  have s5: "getitem_cols (heap (start small_matrix ()) ! 0) QUESTION_COLS = Inr small_items"
    by (simp add: start_def small_matrix_def small_items_def getitem_cols_def QUESTION_COLS_def
        numeral_eq_Suc)
  have s6: "prepare_format_groups_hm = prepare_format_groups
              \<or> (prepare_format_groups_hm :: ref \<Rightarrow> (unit, ref list) prog)
                  = prepare_format_groups_hm"
    by simp
  have sm: "series_and (series_eq [Num 1, Num 1, Num 2, Num 2] 1)
              (series_lt [Num 10, Num 60, Num 10, Num 60] 51) = [True, False, False, False]"
    "series_and (series_eq [Num 1, Num 1, Num 2, Num 2] 1)
              (series_gt [Num 10, Num 60, Num 10, Num 60] 50) = [False, True, False, False]"
    "series_and (series_eq [Num 1, Num 1, Num 2, Num 2] 2)
              (series_lt [Num 10, Num 60, Num 10, Num 60] 51) = [False, False, True, False]"
    "series_and (series_eq [Num 1, Num 1, Num 2, Num 2] 2)
              (series_gt [Num 10, Num 60, Num 10, Num 60] 50) = [False, False, False, True]"
    by (simp_all add: series_and_def series_eq_def series_lt_def series_gt_def)
  have sl: "df_len small_matrix = 4"
    by (simp add: df_len_def small_matrix_def)
  have h1: "0 < length (heap (start half_matrix ()))"
    by (simp add: start_def)
  have h3: "getitem_col (heap (start half_matrix ()) ! 0) ''formatUp'' = Inr [Num 1, Num 2]"
    by (simp add: start_def half_matrix_def getitem_col_def)
  have h4: "getitem_col (heap (start half_matrix ()) ! 0) ''hidden''
              = Inr [Num (101 / 2), Num 10]"
    by (simp add: start_def half_matrix_def getitem_col_def)
  have h5: "getitem_cols (heap (start half_matrix ()) ! 0) QUESTION_COLS
              = Inr \<lparr>df_columns = QUESTION_COLS, df_index = [0, 1],
                     df_values = [replicate 12 (Num 3), replicate 12 (Num 4)]\<rparr>"
    by (simp add: start_def half_matrix_def getitem_cols_def QUESTION_COLS_def numeral_eq_Suc)
  have h6: "prepare_format_groups = prepare_format_groups
              \<or> (prepare_format_groups :: ref \<Rightarrow> (unit, ref list) prog)
                  = prepare_format_groups_hm"
    by simp
  have hm: "series_and (series_eq [Num 1, Num 2] 1) (series_lt [Num (101 / 2), Num 10] 51)
              = [True, False]"
    "series_and (series_eq [Num 1, Num 2] 1) (series_gt [Num (101 / 2), Num 10] 50)
              = [True, False]"
    "series_and (series_eq [Num 1, Num 2] 2) (series_lt [Num (101 / 2), Num 10] 51)
              = [False, True]"
    "series_and (series_eq [Num 1, Num 2] 2) (series_gt [Num (101 / 2), Num 10] 50)
              = [False, False]"
    by (simp_all add: series_and_def series_eq_def series_lt_def series_gt_def)
  from prepare_format_groups_partition [OF s1 s3 s4 s5 s6]
  obtain gs w' where a:
    "prepare_format_groups_hm 0 (start small_matrix ()) = (Inr gs, w')"
    "map (\<lambda>g. heap w' ! g) gs
       = map (getitem_mask small_items)
           [[True, False, False, False], [False, True, False, False],
            [False, False, True, False], [False, False, False, True]]"
    "\<forall>g \<in> set (map (\<lambda>g. heap w' ! g) gs). df_columns g = QUESTION_COLS"
    "distinct (concat (map df_index (map (\<lambda>g. heap w' ! g) gs)))"
    "sum_list (map df_len (map (\<lambda>g. heap w' ! g) gs)) = df_len small_matrix"
    using s2 unfolding Let_def sm by (auto simp: start_def)
  from prepare_format_groups_partition [OF h1 h3 h4 h5 h6]
  obtain hs v' where b:
    "prepare_format_groups 0 (start half_matrix ()) = (Inr hs, v')"
    "map (\<lambda>g. heap v' ! g) hs
       = map (getitem_mask \<lparr>df_columns = QUESTION_COLS, df_index = [0, 1],
                     df_values = [replicate 12 (Num 3), replicate 12 (Num 4)]\<rparr>)
           [[True, False], [True, False], [False, True], [False, False]]"
    unfolding Let_def hm by auto
  have b2: "map df_index (map (\<lambda>g. heap v' ! g) hs) = [[0], [0], [1], []]"
    unfolding b(2) by (simp add: getitem_mask_def)
  have b3: "map df_columns (map (\<lambda>g. heap v' ! g) hs) = replicate 4 QUESTION_COLS"
    unfolding b(2) by (simp add: getitem_mask_def numeral_eq_Suc)
  have A: "\<exists>gs w'. prepare_format_groups_hm 0 (start small_matrix ()) = (Inr gs, w')
      \<and> map (\<lambda>g. heap w' ! g) gs
          = map (getitem_mask small_items)
              [[True, False, False, False], [False, True, False, False],
               [False, False, True, False], [False, False, False, True]]
      \<and> distinct (concat (map df_index (map (\<lambda>g. heap w' ! g) gs)))
      \<and> sum_list (map df_len (map (\<lambda>g. heap w' ! g) gs)) = df_len small_matrix"
    by (intro exI conjI) (rule a(1) a(2) a(4) a(5))+
  have B: "\<exists>gs w'. prepare_format_groups 0 (start half_matrix ()) = (Inr gs, w')
      \<and> map df_index (map (\<lambda>g. heap w' ! g) gs) = [[0], [0], [1], []]
      \<and> map df_columns (map (\<lambda>g. heap w' ! g) gs) = replicate 4 QUESTION_COLS"
    by (intro exI conjI) (rule b(1) b2 b3)+
  show ?thesis
    by (rule conjI [OF A B])
qed

text \<open>
  The claim as stated, for every filtered matrix, fails. The filter looks at the role
  and the visiting frequency only, so a row of another presentation format stays in
  and falls into no group: on \<open>stray_matrix\<close> the groups hold one row of the two. And a
  row whose \<open>hidden\<close> value lies between 50 and 51 satisfies both comparisons: on
  \<open>half_matrix\<close> the first row is in the first group and in the second.
\<close>

theorem prepare_format_groups_partition_counterexample:
  "fst (prepare_format_groups 0 (start stray_matrix ())) = Inr [4, 6, 8, 10]
   \<and> map (\<lambda>g. df_len (heap (snd (prepare_format_groups 0 (start stray_matrix ()))) ! g))
        [4, 6, 8, 10] = [1, 0, 0, 0]
   \<and> df_len (heap (start stray_matrix ()) ! 0) = 2
   \<and> fst (prepare_format_groups 0 (start half_matrix ())) = Inr [4, 6, 8, 10]
   \<and> map (\<lambda>g. df_index (heap (snd (prepare_format_groups 0 (start half_matrix ()))) ! g))
        [4, 6, 8, 10] = [[0], [0], [1], []]"
  by code_simp

section \<open>No operation changes an object it is given\<close>


lemma grows_seq [intro!]: "grows m \<Longrightarrow> (\<And>x. grows (k x)) \<Longrightarrow> grows (seq m k)"
  unfolding grows_def seq_def
proof
  fix w
  assume m: "\<forall>w. \<exists>ys. heap (snd (m w)) = heap w @ ys"
    and k: "\<And>x. \<forall>w. \<exists>ys. heap (snd (k x w)) = heap w @ ys"
  obtain r w' where mw: "m w = (r, w')" by (cases "m w")
  from m obtain ys where ys: "heap w' = heap w @ ys"
    using mw by (metis snd_conv)
  show "\<exists>ys. heap (snd (case m w of (Inl e, w') \<Rightarrow> (Inl e, w') | (Inr x, w') \<Rightarrow> k x w')) = heap w @ ys"
  proof (cases r)
    case (Inl e)
    then show ?thesis using mw ys by simp
  next
    case (Inr x)
    from k [of x] obtain zs where "heap (snd (k x w')) = heap w' @ zs" by blast
    then show ?thesis using mw ys Inr by simp
  qed
qed

lemma grows_prims [intro!, simp]:
  "grows (ret x)" "grows (raise e)" "grows (lift r)" "grows (alloc f)" "grows (load p)"
  "grows (emit ev)"
  by (simp_all add: grows_def ret_def raise_def lift_def alloc_def load_def emit_def)

lemma grows_case_prod [intro!]: "(\<And>a b. grows (f a b)) \<Longrightarrow> grows (case x of (a, b) \<Rightarrow> f a b)"
  by (cases x) simp

lemma grows_if [intro!]: "grows a \<Longrightarrow> grows b \<Longrightarrow> grows (if c then a else b)"
  by simp

lemma grows_py [intro!, simp]:
  "grows (py_copy r)" "grows (py_getitem_cols r cs)" "grows (py_getitem_col r c)"
  "grows (py_getitem_mask r bs)" "grows (py_dropna r)" "grows (py_len r)" "grows (py_empty r)"
  "grows (py_index xs i)" "grows (call_on name f r)"
  unfolding py_copy_def py_getitem_cols_def py_getitem_col_def py_getitem_mask_def
    py_dropna_def py_len_def py_empty_def py_index_def call_on_def
  by (intro grows_seq grows_prims grows_if)+

lemma grows_py_sample [intro!, simp]: "grows (py_sample lib r fr)"
  by (simp add: grows_def py_sample_def alloc_def Let_def split: prod.splits)

lemma grows_adequacy: "grows (perform_adequacy_tests lib matrix)"
  unfolding perform_adequacy_tests_def by (intro grows_seq grows_prims grows_py grows_case_prod)

lemma grows_fa_loop: "grows (fa_loop lib xs ls es)"
proof (induction xs arbitrary: ls es)
  case Nil
  show ?case by simp
next
  case (Cons x xs)
  obtain i grp where x: "x = (i, grp)" by (cases x)
  show ?case
    unfolding x fa_loop.simps
    by (intro grows_seq grows_prims grows_py grows_case_prod Cons.IH)
qed

lemma grows_factor: "grows (perform_factor_analysis lib groups)"
  unfolding perform_factor_analysis_def by (intro grows_seq grows_prims grows_fa_loop)

lemma grows_py_corr [intro!, simp]: "grows (py_corr lib r method)"
  unfolding py_corr_def by (intro grows_seq grows_prims)

lemma grows_bootstrap: "grows (bootstrap_correlation lib mat1 mat2)"
  unfolding bootstrap_correlation_def
  by (intro grows_seq grows_prims grows_py_sample grows_py_corr)

lemma grows_filter_data: "grows (filter_data matrix)"
  unfolding filter_data_def by (intro grows_seq grows_prims grows_py grows_if)

lemma grows_take: "grows m \<Longrightarrow> take (length (heap w)) (heap (snd (m w))) = heap w"
  unfolding grows_def by (metis append_eq_conv_conj)

lemma pfg_grows:
  assumes "matrix < length (heap w)"
  shows "\<exists>ys. heap (snd (prepare_format_groups matrix w)) = heap w @ ys"
    and "\<exists>ys. heap (snd (prepare_format_groups_hm matrix w)) = heap w @ ys"
proof -
  let ?sel = "getitem_cols (heap w ! matrix) ([''formatUp'', ''hidden''] @ QUESTION_COLS)"
  have "(\<exists>ys. heap (snd (prepare_format_groups matrix w)) = heap w @ ys)
      \<and> (\<exists>ys. heap (snd (prepare_format_groups_hm matrix w)) = heap w @ ys)"
  proof (cases ?sel)
    case (Inl e)
    then show ?thesis
      by (simp add: pfg_fail)
  next
    case (Inr grid0)
    then obtain fu hi items where cols:
      "getitem_col (heap w ! matrix) ''formatUp'' = Inr fu"
      "getitem_col (heap w ! matrix) ''hidden'' = Inr hi"
      "getitem_cols (heap w ! matrix) QUESTION_COLS = Inr items"
      using getitem_cols_split [of "heap w ! matrix" "''formatUp''" "''hidden''" QUESTION_COLS]
      by auto
    obtain grid where grid:
      "getitem_cols (heap w ! matrix) ([''formatUp'', ''hidden''] @ QUESTION_COLS) = Inr grid"
      "getitem_col grid ''formatUp'' = Inr fu"
      "getitem_col grid ''hidden'' = Inr hi"
      "\<And>bs. drop_cols (getitem_mask grid bs) [''formatUp'', ''hidden'']
              = Inr (getitem_mask items bs)"
      using groups_of_input [OF cols] by blast
    show ?thesis
      by (simp add: pfg_run [OF assms grid(1-3) grid(4) grid(4) grid(4) grid(4)]
          pfg_hm_run [OF assms grid(1-3) grid(4) grid(4) grid(4) grid(4)])
  qed
  then show "\<exists>ys. heap (snd (prepare_format_groups matrix w)) = heap w @ ys"
    and "\<exists>ys. heap (snd (prepare_format_groups_hm matrix w)) = heap w @ ys"
    by simp_all
qed

lemma append_take: "\<exists>ys. xs' = xs @ ys \<Longrightarrow> take (length xs) xs' = xs"
  by auto

text \<open>
  Claim C8. Whatever the state of the run, and whether the operation returns or raises:
  after group partitioning (either script's), adequacy testing, factor extraction and a
  bootstrap resampling, every frame object that existed before the call is the frame it
  was, the input matrices among them. The in-place drops of the partitioners act on the
  copies they made. (The external routines are given the value of a frame and cannot
  change the object.)
\<close>

theorem inputs_not_mutated:
  assumes "matrix < length (heap w)"
  shows "take (length (heap w)) (heap (snd (prepare_format_groups matrix w))) = heap w
    \<and> heap (snd (prepare_format_groups matrix w)) ! matrix = heap w ! matrix
    \<and> take (length (heap w)) (heap (snd (prepare_format_groups_hm matrix w))) = heap w
    \<and> heap (snd (prepare_format_groups_hm matrix w)) ! matrix = heap w ! matrix
    \<and> take (length (heap w)) (heap (snd (perform_adequacy_tests lib matrix w))) = heap w
    \<and> heap (snd (perform_adequacy_tests lib matrix w)) ! matrix = heap w ! matrix
    \<and> take (length (heap w)) (heap (snd (perform_factor_analysis lib groups w))) = heap w
    \<and> heap (snd (perform_factor_analysis lib groups w)) ! matrix = heap w ! matrix
    \<and> take (length (heap w)) (heap (snd (bootstrap_correlation lib matrix mat2 w))) = heap w
    \<and> heap (snd (bootstrap_correlation lib matrix mat2 w)) ! matrix = heap w ! matrix
    \<and> take (length (heap w)) (heap (snd (bootstrap_correlation lib mat1 matrix w))) = heap w
    \<and> heap (snd (bootstrap_correlation lib mat1 matrix w)) ! matrix = heap w ! matrix"
proof -
  have same: "take (length (heap w)) h = heap w \<Longrightarrow> h ! matrix = heap w ! matrix" for h
    using assms by (metis nth_take)
  have t1: "take (length (heap w)) (heap (snd (prepare_format_groups matrix w))) = heap w"
    using pfg_grows(1) [OF assms] by (rule append_take)
  have t2: "take (length (heap w)) (heap (snd (prepare_format_groups_hm matrix w))) = heap w"
    using pfg_grows(2) [OF assms] by (rule append_take)
  have t3: "take (length (heap w)) (heap (snd (perform_adequacy_tests lib matrix w))) = heap w"
    by (rule grows_take [OF grows_adequacy])
  have t4: "take (length (heap w)) (heap (snd (perform_factor_analysis lib groups w))) = heap w"
    by (rule grows_take [OF grows_factor])
  have t5: "take (length (heap w)) (heap (snd (bootstrap_correlation lib matrix mat2 w))) = heap w"
    by (rule grows_take [OF grows_bootstrap])
  have t6: "take (length (heap w)) (heap (snd (bootstrap_correlation lib mat1 matrix w))) = heap w"
    by (rule grows_take [OF grows_bootstrap])
  show ?thesis
    using t1 t2 t3 t4 t5 t6 same [OF t1] same [OF t2] same [OF t3] same [OF t4] same [OF t5]
      same [OF t6]
    by simp
qed

theorem inputs_not_mutated_witness:
  "heap (snd (prepare_format_groups 0 (start small_matrix (0 :: nat)))) ! 0 = small_matrix
   \<and> heap (snd (prepare_format_groups_hm 0 (start small_matrix (0 :: nat)))) ! 0 = small_matrix
   \<and> heap (snd (perform_adequacy_tests nan_lib 0 (start small_matrix 0))) ! 0 = small_matrix
   \<and> heap (snd (perform_factor_analysis nan_lib [0] (start small_matrix 0))) ! 0 = small_matrix
   \<and> heap (snd (bootstrap_correlation nan_lib 0 0 (start small_matrix 0))) ! 0 = small_matrix"
proof -
  have h: "0 < length (heap (start small_matrix (0 :: nat)))"
    by (simp add: start_def)
  have s: "heap (start small_matrix (0 :: nat)) ! 0 = small_matrix"
    by (simp add: start_def)
  show ?thesis
    using inputs_not_mutated [OF h, of nan_lib "[0]" 0 0] s
    by simp
qed

section \<open>The trace of the pipeline\<close>

lemma calls_of_append: "calls_of n (xs @ ys) = calls_of n xs @ calls_of n ys"
proof (induction xs)
  case Nil
  show ?case by simp
next
  case (Cons x xs)
  then show ?case by (cases x) simp_all
qed

lemma calls_of_filter: "calls_of n (filter is_call evs) = calls_of n evs"
proof (induction evs)
  case Nil
  show ?case by simp
next
  case (Cons x xs)
  then show ?case by (cases x) simp_all
qed

lemma quiet_silent: "quiet m \<Longrightarrow> silent n m"
  unfolding quiet_def silent_def by (metis calls_of_filter)

lemma quiet_seq: "quiet m \<Longrightarrow> (\<And>x. quiet (k x)) \<Longrightarrow> quiet (seq m k)"
  unfolding quiet_def seq_def
proof
  fix w
  assume m: "\<forall>w. filter is_call (out (snd (m w))) = filter is_call (out w)"
    and k: "\<And>x. \<forall>w. filter is_call (out (snd (k x w))) = filter is_call (out w)"
  obtain r w' where mw: "m w = (r, w')" by (cases "m w")
  from m have ys: "filter is_call (out w') = filter is_call (out w)"
    using mw by (metis snd_conv)
  show "filter is_call (out (snd (case m w of (Inl e, w') \<Rightarrow> (Inl e, w') | (Inr x, w') \<Rightarrow> k x w')))
          = filter is_call (out w)"
  proof (cases r)
    case (Inl e)
    then show ?thesis using mw ys by simp
  next
    case (Inr x)
    from k [of x] have "filter is_call (out (snd (k x w'))) = filter is_call (out w')" by blast
    then show ?thesis using mw ys Inr by simp
  qed
qed

lemma silent_seq: "silent n m \<Longrightarrow> (\<And>x. silent n (k x)) \<Longrightarrow> silent n (seq m k)"
  unfolding silent_def seq_def
proof
  fix w
  assume m: "\<forall>w. calls_of n (out (snd (m w))) = calls_of n (out w)"
    and k: "\<And>x. \<forall>w. calls_of n (out (snd (k x w))) = calls_of n (out w)"
  obtain r w' where mw: "m w = (r, w')" by (cases "m w")
  from m have ys: "calls_of n (out w') = calls_of n (out w)"
    using mw by (metis snd_conv)
  show "calls_of n (out (snd (case m w of (Inl e, w') \<Rightarrow> (Inl e, w') | (Inr x, w') \<Rightarrow> k x w')))
          = calls_of n (out w)"
  proof (cases r)
    case (Inl e)
    then show ?thesis using mw ys by simp
  next
    case (Inr x)
    from k [of x] have "calls_of n (out (snd (k x w'))) = calls_of n (out w')" by blast
    then show ?thesis using mw ys Inr by simp
  qed
qed

lemma quiet_prims:
  "quiet (ret x)" "quiet (raise e)" "quiet (lift r)" "quiet (alloc f)" "quiet (load p)"
  "quiet (store p f)" "\<not> is_call ev \<Longrightarrow> quiet (emit ev)" "quiet (any_empty gs)"
  by (simp_all add: quiet_def ret_def raise_def lift_def alloc_def load_def store_def emit_def
      any_empty_def)

lemma quiet_if: "quiet a \<Longrightarrow> quiet b \<Longrightarrow> quiet (if c then a else b)"
  by simp

lemma quiet_py:
  "quiet (py_copy r)" "quiet (py_getitem_cols r cs)" "quiet (py_getitem_col r c)"
  "quiet (py_getitem_mask r bs)" "quiet (py_dropna r)" "quiet (py_len r)" "quiet (py_empty r)"
  "quiet (py_index xs i)" "quiet (py_drop_inplace r cs)"
  unfolding py_copy_def py_getitem_cols_def py_getitem_col_def py_getitem_mask_def
    py_dropna_def py_len_def py_empty_def py_index_def py_drop_inplace_def
  by (intro quiet_seq quiet_prims quiet_if)+

lemma quiet_filter_data: "quiet (filter_data matrix)"
  unfolding filter_data_def
  by (intro quiet_seq quiet_prims quiet_py quiet_if) simp_all

lemma quiet_groups_loop: "quiet (groups_loop grid xs gs)"
proof (induction xs arbitrary: gs)
  case Nil
  show ?case by (simp add: quiet_prims)
next
  case (Cons x xs)
  obtain i c where x: "x = (i, c)" by (cases x)
  show ?case
    unfolding x groups_loop.simps
    by (intro quiet_seq quiet_prims quiet_py Cons.IH) simp
qed

lemma quiet_prepare: "quiet (prepare_format_groups matrix)"
  unfolding prepare_format_groups_def conditions_def cond_lt_def cond_gt_def
  by (intro quiet_seq quiet_prims quiet_py quiet_groups_loop) simp

lemma seq_Inr: "m w = (Inr x, w') \<Longrightarrow> seq m k w = k x w'"
  by (simp add: seq_def)

lemma seq_Inl: "m w = (Inl e, w') \<Longrightarrow> seq m k w = (Inl e, w')"
  by (simp add: seq_def)

lemma quietD: "quiet m \<Longrightarrow> m w = (r, w') \<Longrightarrow> filter is_call (out w') = filter is_call (out w)"
  unfolding quiet_def by (metis snd_conv)

lemma main_prefix:
  assumes "filter_data matrix w = (Inr fm, w1)"
    and "\<not> df_empty (heap w1 ! fm)"
    and "prepare_format_groups fm w1 = (Inr gs, w2)"
  shows "main lib matrix w =
    (if \<exists>g \<in> set gs. df_len (heap w2 ! g) = 0
     then emit (Print ''Error: One or more groups have no data.'') w2
     else seq (perform_adequacy_tests lib fm) (\<lambda>(chi_square, p_value, kmo_model).
     seq (perform_factor_analysis lib gs) (\<lambda>(loadings, eigenvalues).
     seq (emit (Export ''create_scree_plot'')) (\<lambda>_.
     seq (emit (Export ''create_loadings_heatmaps'')) (\<lambda>_.
     seq (emit (Export ''save_loadings_to_csv 0'')) (\<lambda>_.
     seq (emit (Export ''save_loadings_to_csv 1'')) (\<lambda>_.
     seq (emit (Export ''save_loadings_to_csv 2'')) (\<lambda>_.
     seq (emit (Export ''save_loadings_to_csv 3'')) (\<lambda>_.
     seq (emit (PrintVals ''ANALYSIS SUMMARY'' [chi_square, p_value, kmo_model])) (\<lambda>_.
     emit (Print ''Analysis complete!'')))))))))) w2)"
  using assms
  by (auto simp add: main_def seq_def py_empty_def any_empty_def load_def ret_def)

lemma silent_prims:
  "silent n (ret x)" "silent n (raise e)" "silent n (lift r)" "silent n (alloc f)"
  "silent n (load p)" "\<not> is_call ev \<Longrightarrow> silent n (emit ev)"
  by (simp_all add: quiet_silent quiet_prims)

lemma silent_call_on: "n \<noteq> name \<Longrightarrow> silent n (call_on name f r)"
  by (simp add: silent_def call_on_def seq_def load_def emit_def lift_def calls_of_append)

lemma silent_case_prod: "(\<And>a b. silent n (f a b)) \<Longrightarrow> silent n (case x of (a, b) \<Rightarrow> f a b)"
  by (cases x) simp

lemma silent_fa_loop: "n \<noteq> ''FactorAnalyzer.fit'' \<Longrightarrow> silent n (fa_loop lib xs ls es)"
proof (induction xs arbitrary: ls es)
  case Nil
  show ?case by (simp add: silent_prims)
next
  case (Cons x xs)
  obtain i grp where x: "x = (i, grp)" by (cases x)
  show ?case
    unfolding x fa_loop.simps
    by (intro silent_seq silent_prims silent_case_prod silent_call_on Cons.IH Cons.prems
        quiet_silent quiet_py) simp_all
qed

lemma silent_rest:
  assumes "n \<noteq> ''FactorAnalyzer.fit''"
  shows "silent n
    (seq (perform_factor_analysis lib gs) (\<lambda>(loadings, eigenvalues).
     seq (emit (Export ''create_scree_plot'')) (\<lambda>_.
     seq (emit (Export ''create_loadings_heatmaps'')) (\<lambda>_.
     seq (emit (Export ''save_loadings_to_csv 0'')) (\<lambda>_.
     seq (emit (Export ''save_loadings_to_csv 1'')) (\<lambda>_.
     seq (emit (Export ''save_loadings_to_csv 2'')) (\<lambda>_.
     seq (emit (Export ''save_loadings_to_csv 3'')) (\<lambda>_.
     seq (emit (PrintVals ''ANALYSIS SUMMARY'' [c, p, k])) (\<lambda>_.
     emit (Print ''Analysis complete!''))))))))))"
  unfolding perform_factor_analysis_def
  by (intro silent_seq silent_prims silent_case_prod silent_fa_loop assms) simp_all

lemmas adequacy_defs = perform_adequacy_tests_def call_on_def seq_def lift_def alloc_def
  load_def emit_def ret_def py_copy_def py_getitem_cols_def py_dropna_def py_len_def

lemma adequacy_bartlett_raises:
  assumes "getitem_cols (heap w ! matrix) QUESTION_COLS = Inr grid"
    and "calculate_bartlett_sphericity lib (dropna grid) = Inl e"
  shows "perform_adequacy_tests lib matrix w =
    (Inl e, w\<lparr>heap := heap w @ [grid, grid, dropna grid],
               out := out w @ [Print ''Performing adequacy tests...'',
                 PrintNum ''Complete cases for analysis: '' (df_len (dropna grid)),
                 Called ''calculate_bartlett_sphericity'' (dropna grid)]\<rparr>)"
  using assms by (simp add: adequacy_defs nth_append)

lemma adequacy_kmo_raises:
  assumes "getitem_cols (heap w ! matrix) QUESTION_COLS = Inr grid"
    and "calculate_bartlett_sphericity lib (dropna grid) = Inr (c, p)"
    and "calculate_kmo lib (dropna grid) = Inl e"
  shows "perform_adequacy_tests lib matrix w =
    (Inl e, w\<lparr>heap := heap w @ [grid, grid, dropna grid],
               out := out w @ [Print ''Performing adequacy tests...'',
                 PrintNum ''Complete cases for analysis: '' (df_len (dropna grid)),
                 Called ''calculate_bartlett_sphericity'' (dropna grid),
                 Print ''Bartlett Test of Sphericity:'',
                 PrintVals ''  Chi-square: '' [c], PrintVals ''  p-value: '' [p],
                 Print (if cell_lt p (1 / 1000)
                        then ''  Data is suitable for factor analysis (p < 0.001)''
                        else ''  Warning: p-value > 0.001''),
                 Called ''calculate_kmo'' (dropna grid)]\<rparr>)"
  using assms by (simp add: adequacy_defs nth_append)

lemma adequacy_returns:
  assumes "getitem_cols (heap w ! matrix) QUESTION_COLS = Inr grid"
    and "calculate_bartlett_sphericity lib (dropna grid) = Inr (c, p)"
    and "calculate_kmo lib (dropna grid) = Inr (a, k)"
  shows "perform_adequacy_tests lib matrix w =
    (Inr (c, p, k), w\<lparr>heap := heap w @ [grid, grid, dropna grid],
               out := out w @ [Print ''Performing adequacy tests...'',
                 PrintNum ''Complete cases for analysis: '' (df_len (dropna grid)),
                 Called ''calculate_bartlett_sphericity'' (dropna grid),
                 Print ''Bartlett Test of Sphericity:'',
                 PrintVals ''  Chi-square: '' [c], PrintVals ''  p-value: '' [p],
                 Print (if cell_lt p (1 / 1000)
                        then ''  Data is suitable for factor analysis (p < 0.001)''
                        else ''  Warning: p-value > 0.001''),
                 Called ''calculate_kmo'' (dropna grid),
                 Print ''Kaiser-Meyer-Olkin (KMO) Test:'',
                 PrintVals ''  Overall KMO: '' [k],
                 Print (''  Interpretation: '' @ kmo_interpretation k)]\<rparr>)"
  using assms by (simp add: adequacy_defs nth_append)

lemma adequacy_run:
  assumes g: "getitem_cols (heap w ! matrix) QUESTION_COLS = Inr grid"
  shows "fst (perform_adequacy_tests lib matrix w) =
      (case calculate_bartlett_sphericity lib (dropna grid) of
         Inl e \<Rightarrow> Inl e
       | Inr (chi_square, p_value) \<Rightarrow>
           (case calculate_kmo lib (dropna grid) of
              Inl e \<Rightarrow> Inl e
            | Inr (kmo_all, kmo_model) \<Rightarrow> Inr (chi_square, p_value, kmo_model)))"
    and "calls_of ''calculate_bartlett_sphericity'' (out (snd (perform_adequacy_tests lib matrix w)))
      = calls_of ''calculate_bartlett_sphericity'' (out w) @ [dropna grid]"
    and "calls_of ''calculate_kmo'' (out (snd (perform_adequacy_tests lib matrix w)))
      = calls_of ''calculate_kmo'' (out w) @
         (case calculate_bartlett_sphericity lib (dropna grid) of
            Inl e \<Rightarrow> [] | Inr r \<Rightarrow> [dropna grid])"
proof -
  let ?goal = "fst (perform_adequacy_tests lib matrix w) =
      (case calculate_bartlett_sphericity lib (dropna grid) of
         Inl e \<Rightarrow> Inl e
       | Inr (chi_square, p_value) \<Rightarrow>
           (case calculate_kmo lib (dropna grid) of
              Inl e \<Rightarrow> Inl e
            | Inr (kmo_all, kmo_model) \<Rightarrow> Inr (chi_square, p_value, kmo_model)))
    \<and> calls_of ''calculate_bartlett_sphericity'' (out (snd (perform_adequacy_tests lib matrix w)))
      = calls_of ''calculate_bartlett_sphericity'' (out w) @ [dropna grid]
    \<and> calls_of ''calculate_kmo'' (out (snd (perform_adequacy_tests lib matrix w)))
      = calls_of ''calculate_kmo'' (out w) @
         (case calculate_bartlett_sphericity lib (dropna grid) of
            Inl e \<Rightarrow> [] | Inr r \<Rightarrow> [dropna grid])"
  have ?goal
  proof (cases "calculate_bartlett_sphericity lib (dropna grid)")
    case (Inl e)
    show ?thesis
      by (simp add: adequacy_bartlett_raises [OF g Inl] Inl calls_of_append)
  next
    case (Inr cp)
    obtain c p where cp: "cp = (c, p)" by (cases cp)
    note b = Inr [unfolded cp]
    show ?thesis
    proof (cases "calculate_kmo lib (dropna grid)")
      case (Inl e)
      show ?thesis
        by (simp add: adequacy_kmo_raises [OF g b Inl] b Inl calls_of_append)
    next
      case (Inr ak)
      obtain a k where ak: "ak = (a, k)" by (cases ak)
      note r = Inr [unfolded ak]
      show ?thesis
        by (simp add: adequacy_returns [OF g b r] b r calls_of_append)
    qed
  qed
  then show "fst (perform_adequacy_tests lib matrix w) =
      (case calculate_bartlett_sphericity lib (dropna grid) of
         Inl e \<Rightarrow> Inl e
       | Inr (chi_square, p_value) \<Rightarrow>
           (case calculate_kmo lib (dropna grid) of
              Inl e \<Rightarrow> Inl e
            | Inr (kmo_all, kmo_model) \<Rightarrow> Inr (chi_square, p_value, kmo_model)))"
    and "calls_of ''calculate_bartlett_sphericity'' (out (snd (perform_adequacy_tests lib matrix w)))
      = calls_of ''calculate_bartlett_sphericity'' (out w) @ [dropna grid]"
    and "calls_of ''calculate_kmo'' (out (snd (perform_adequacy_tests lib matrix w)))
      = calls_of ''calculate_kmo'' (out w) @
         (case calculate_bartlett_sphericity lib (dropna grid) of
            Inl e \<Rightarrow> [] | Inr r \<Rightarrow> [dropna grid])"
    by simp_all
qed


lemma filter_data_ref: "filter_data matrix w = (Inr fm, w1) \<Longrightarrow> fm < length (heap w1)"
  by (auto simp: filter_data_def seq_def ret_def lift_def alloc_def load_def emit_def
      py_getitem_col_def py_getitem_mask_def py_len_def py_empty_def
      split: sum.splits if_splits)

lemma filtered_kept:
  assumes "filter_data matrix w = (Inr fm, w1)"
    and "prepare_format_groups fm w1 = (Inr gs, w2)"
  shows "heap w2 ! fm = heap w1 ! fm"
proof -
  have fm: "fm < length (heap w1)"
    using assms(1) by (rule filter_data_ref)
  from pfg_grows(1) [OF fm] obtain ys where "heap w2 = heap w1 @ ys"
    using assms(2) by auto
  with fm show ?thesis
    by (simp add: nth_append)
qed

lemma silentD: "silent n m \<Longrightarrow> calls_of n (out (snd (m w))) = calls_of n (out w)"
  by (simp add: silent_def)

lemma main_tail:
  assumes h1: "filter_data matrix w = (Inr fm, w1)"
    and h2: "\<not> df_empty (heap w1 ! fm)"
    and h3: "prepare_format_groups fm w1 = (Inr gs, w2)"
    and h4: "\<forall>g \<in> set gs. df_len (heap w2 ! g) \<noteq> 0"
  shows "main lib matrix w =
     seq (perform_adequacy_tests lib fm) (\<lambda>(chi_square, p_value, kmo_model).
     seq (perform_factor_analysis lib gs) (\<lambda>(loadings, eigenvalues).
     seq (emit (Export ''create_scree_plot'')) (\<lambda>_.
     seq (emit (Export ''create_loadings_heatmaps'')) (\<lambda>_.
     seq (emit (Export ''save_loadings_to_csv 0'')) (\<lambda>_.
     seq (emit (Export ''save_loadings_to_csv 1'')) (\<lambda>_.
     seq (emit (Export ''save_loadings_to_csv 2'')) (\<lambda>_.
     seq (emit (Export ''save_loadings_to_csv 3'')) (\<lambda>_.
     seq (emit (PrintVals ''ANALYSIS SUMMARY'' [chi_square, p_value, kmo_model])) (\<lambda>_.
     emit (Print ''Analysis complete!'')))))))))) w2"
  using h4 by (auto simp add: main_prefix [OF h1 h2 h3])

lemma main_calls:
  assumes h1: "filter_data matrix w = (Inr fm, w1)"
    and h2: "\<not> df_empty (heap w1 ! fm)"
    and h3: "prepare_format_groups fm w1 = (Inr gs, w2)"
    and h4: "\<forall>g \<in> set gs. df_len (heap w2 ! g) \<noteq> 0"
    and n: "n \<noteq> ''FactorAnalyzer.fit''"
  shows "calls_of n (out (snd (main lib matrix w)))
           = calls_of n (out (snd (perform_adequacy_tests lib fm w2)))"
proof -
  obtain r w3 where pat: "perform_adequacy_tests lib fm w2 = (r, w3)"
    by (cases "perform_adequacy_tests lib fm w2")
  note m = main_tail [OF h1 h2 h3 h4]
  show ?thesis
  proof (cases r)
    case (Inl e)
    then show ?thesis
      unfolding m by (simp add: seq_def [of "perform_adequacy_tests lib fm"] pat)
  next
    case (Inr x)
    obtain c p k where x: "x = (c, p, k)" by (cases x)
    show ?thesis
      unfolding m
      by (simp add: seq_def [of "perform_adequacy_tests lib fm"] pat Inr x
          silentD [OF silent_rest [OF n]])
  qed
qed

lemma start_simps [simp]: "heap (start f g) = [f]" "out (start f g) = []" "rng (start f g) = g"
  by (simp_all add: start_def)

lemma lopsided_run:
  "filter_data 0 (start lopsided_matrix (0 :: nat))
     = (Inr 2, snd (filter_data 0 (start lopsided_matrix 0)))"
  "\<not> df_empty (heap (snd (filter_data 0 (start lopsided_matrix (0 :: nat)))) ! 2)"
  "prepare_format_groups 2 (snd (filter_data 0 (start lopsided_matrix (0 :: nat))))
     = (Inr [6, 8, 10, 12],
        snd (prepare_format_groups 2 (snd (filter_data 0 (start lopsided_matrix 0)))))"
  "\<exists>g \<in> set [6, 8, 10, 12].
     df_len (heap (snd (prepare_format_groups 2
               (snd (filter_data 0 (start lopsided_matrix (0 :: nat)))))) ! g) = 0"
proof -
  have "fst (filter_data 0 (start lopsided_matrix (0 :: nat))) = Inr 2"
    by code_simp
  then show "filter_data 0 (start lopsided_matrix (0 :: nat))
     = (Inr 2, snd (filter_data 0 (start lopsided_matrix 0)))"
    by (simp add: prod_eq_iff)
  show "\<not> df_empty (heap (snd (filter_data 0 (start lopsided_matrix (0 :: nat)))) ! 2)"
    by code_simp
  have "fst (prepare_format_groups 2 (snd (filter_data 0 (start lopsided_matrix (0 :: nat)))))
          = Inr [6, 8, 10, 12]"
    by code_simp
  then show "prepare_format_groups 2 (snd (filter_data 0 (start lopsided_matrix (0 :: nat))))
     = (Inr [6, 8, 10, 12],
        snd (prepare_format_groups 2 (snd (filter_data 0 (start lopsided_matrix 0)))))"
    by (simp add: prod_eq_iff)
  show "\<exists>g \<in> set [6, 8, 10, 12].
     df_len (heap (snd (prepare_format_groups 2
               (snd (filter_data 0 (start lopsided_matrix (0 :: nat)))))) ! g) = 0"
    by code_simp
qed

text \<open>
  Claim C4, as the code has it. \<^verbatim>\<open>main\<close> tests the groups together: when any of
  the four is empty it prints one error line and returns. Nothing is analysed then, for
  no group: the trace holds no call of an external routine. (The record counts printed
  by the partitioner show which group is empty.)
\<close>

theorem main_stops_on_empty_group:
  assumes "filter_data matrix w = (Inr fm, w1)"
    and "\<not> df_empty (heap w1 ! fm)"
    and "prepare_format_groups fm w1 = (Inr gs, w2)"
    and "\<exists>g \<in> set gs. df_len (heap w2 ! g) = 0"
  shows "main lib matrix w
           = (Inr (), w2\<lparr>out := out w2 @ [Print ''Error: One or more groups have no data.'']\<rparr>)
    \<and> filter is_call (out (snd (main lib matrix w))) = filter is_call (out w)"
  using assms(4) quietD [OF quiet_filter_data assms(1)] quietD [OF quiet_prepare assms(3)]
  by (simp add: main_prefix [OF assms(1-3)] emit_def)

theorem main_stops_on_empty_group_witness:
  "fst (main nan_lib 0 (start lopsided_matrix 0)) = Inr ()
   \<and> filter is_call (out (snd (main nan_lib 0 (start lopsided_matrix 0)))) = []"
proof -
  note t = main_stops_on_empty_group [OF lopsided_run, of nan_lib]
  from t have "fst (main nan_lib 0 (start lopsided_matrix 0)) = Inr ()"
    by simp
  moreover from t [THEN conjunct2]
  have "filter is_call (out (snd (main nan_lib 0 (start lopsided_matrix 0)))) = []"
    by simp
  ultimately show ?thesis
    by simp
qed

text \<open>
  The claim as stated fails: on \<open>lopsided_matrix\<close> three groups have a row each and
  the fourth has none; the run ends after the error line, and the three groups that
  have data are not analysed.
\<close>

theorem main_stops_on_empty_group_counterexample:
  "fst (main nan_lib 0 (start lopsided_matrix 0)) = Inr ()
   \<and> out (snd (main nan_lib 0 (start lopsided_matrix 0))) =
       [PrintNum ''Initial records: '' 3, PrintNum ''Students only: '' 3,
        PrintNum ''Frequent visitors: '' 3, Print ''Preparing format groups...'',
        PrintGroup 1 ''Single Page - Order A'' 1, PrintGroup 2 ''Single Page - Order B'' 1,
        PrintGroup 3 ''Slides - Order A'' 1, PrintGroup 4 ''Slides - Order B'' 0,
        Print ''Error: One or more groups have no data.'']"
proof -
  have "out (snd (prepare_format_groups 2 (snd (filter_data 0 (start lopsided_matrix (0 :: nat))))))
      = [PrintNum ''Initial records: '' 3, PrintNum ''Students only: '' 3,
         PrintNum ''Frequent visitors: '' 3, Print ''Preparing format groups...'',
         PrintGroup 1 ''Single Page - Order A'' 1, PrintGroup 2 ''Single Page - Order B'' 1,
         PrintGroup 3 ''Slides - Order A'' 1, PrintGroup 4 ''Slides - Order B'' 0]"
    by code_simp
  then show ?thesis
    using lopsided_run(4)
    by (simp add: main_prefix [OF lopsided_run(1-3)] emit_def)
qed

section \<open>The adequacy tests within the pipeline\<close>

lemma calls_after_partition:
  assumes "filter_data matrix w = (Inr fm, w1)"
    and "prepare_format_groups fm w1 = (Inr gs, w2)"
  shows "calls_of n (out w2) = calls_of n (out w)"
  using quietD [OF quiet_filter_data assms(1)] quietD [OF quiet_prepare assms(2)]
  by (metis calls_of_filter)

lemma small_run:
  "filter_data 0 (start small_matrix (0 :: nat))
     = (Inr 2, snd (filter_data 0 (start small_matrix 0)))"
  "\<not> df_empty (heap (snd (filter_data 0 (start small_matrix (0 :: nat)))) ! 2)"
  "prepare_format_groups 2 (snd (filter_data 0 (start small_matrix (0 :: nat))))
     = (Inr [6, 8, 10, 12],
        snd (prepare_format_groups 2 (snd (filter_data 0 (start small_matrix 0)))))"
  "\<forall>g \<in> set [6, 8, 10, 12].
     df_len (heap (snd (prepare_format_groups 2
               (snd (filter_data 0 (start small_matrix (0 :: nat)))))) ! g) \<noteq> 0"
  "getitem_cols (heap (snd (filter_data 0 (start small_matrix (0 :: nat)))) ! 2) QUESTION_COLS
     = Inr small_items"
proof -
  have "fst (filter_data 0 (start small_matrix (0 :: nat))) = Inr 2"
    by code_simp
  then show "filter_data 0 (start small_matrix (0 :: nat))
     = (Inr 2, snd (filter_data 0 (start small_matrix 0)))"
    by (simp add: prod_eq_iff)
  show "\<not> df_empty (heap (snd (filter_data 0 (start small_matrix (0 :: nat)))) ! 2)"
    by code_simp
  have "fst (prepare_format_groups 2 (snd (filter_data 0 (start small_matrix (0 :: nat)))))
          = Inr [6, 8, 10, 12]"
    by code_simp
  then show "prepare_format_groups 2 (snd (filter_data 0 (start small_matrix (0 :: nat))))
     = (Inr [6, 8, 10, 12],
        snd (prepare_format_groups 2 (snd (filter_data 0 (start small_matrix 0)))))"
    by (simp add: prod_eq_iff)
  show "\<forall>g \<in> set [6, 8, 10, 12].
     df_len (heap (snd (prepare_format_groups 2
               (snd (filter_data 0 (start small_matrix (0 :: nat)))))) ! g) \<noteq> 0"
    by code_simp
  show "getitem_cols (heap (snd (filter_data 0 (start small_matrix (0 :: nat)))) ! 2)
          QUESTION_COLS = Inr small_items"
    by code_simp
qed

lemma small_pooled:
  "getitem_cols (heap (snd (prepare_format_groups 2
      (snd (filter_data 0 (start small_matrix (0 :: nat)))))) ! 2) QUESTION_COLS = Inr small_items"
  using small_run(5) by (simp add: filtered_kept [OF small_run(1) small_run(3)])

lemma small_items_of:
  "getitem_cols (heap (start small_matrix (0 :: nat)) ! 0) QUESTION_COLS = Inr small_items"
  by code_simp

lemma small_complete: "dropna small_items = small_items" "df_len small_items = 4"
  by code_simp+

text \<open>
  Claim C5. \<^verbatim>\<open>perform_adequacy_tests\<close> has no test of the number of complete rows
  (\<^verbatim>\<open>perform_sem_analysis\<close> of \<^verbatim>\<open>response_length_analysis.py\<close> has one, on the same
  twelve columns, and skips its analysis below it). On every matrix with the item
  columns the complete cases are handed to the sphericity routine, however few they
  are, and the outcome is the outcome of the two external routines: the adequacy tests
  fail only when one of these raises. On \<open>small_matrix\<close>, with 4 complete rows for 12
  items, the routines are called on the 4 rows and the tests return.
\<close>

theorem adequacy_has_no_row_threshold:
  assumes "getitem_cols (heap w ! matrix) QUESTION_COLS = Inr grid"
  shows "calls_of ''calculate_bartlett_sphericity''
        (out (snd (perform_adequacy_tests lib matrix w)))
      = calls_of ''calculate_bartlett_sphericity'' (out w) @ [dropna grid]
    \<and> fst (perform_adequacy_tests lib matrix w) =
      (case calculate_bartlett_sphericity lib (dropna grid) of
         Inl e \<Rightarrow> Inl e
       | Inr (chi_square, p_value) \<Rightarrow>
           (case calculate_kmo lib (dropna grid) of
              Inl e \<Rightarrow> Inl e
            | Inr (kmo_all, kmo_model) \<Rightarrow> Inr (chi_square, p_value, kmo_model)))"
  by (simp add: adequacy_run [OF assms])

theorem adequacy_has_no_row_threshold_witness:
  "getitem_cols (heap (start small_matrix (0 :: nat)) ! 0) QUESTION_COLS = Inr small_items
   \<and> df_len (dropna small_items) = 4 \<and> length QUESTION_COLS + 1 = 13
   \<and> calls_of ''calculate_bartlett_sphericity''
        (out (snd (perform_adequacy_tests nan_lib 0 (start small_matrix 0))))
      = [dropna small_items]
   \<and> fst (perform_adequacy_tests nan_lib 0 (start small_matrix 0)) = Inr (NegInf, Num 1, NaN)"
proof -
  have b: "calculate_bartlett_sphericity nan_lib small_items = Inr (NegInf, Num 1)"
    by (simp add: nan_lib_def)
  have k: "calculate_kmo nan_lib small_items
             = Inr (map (\<lambda>c. NaN) (df_columns small_items), NaN)"
    by (simp add: nan_lib_def)
  have n: "length QUESTION_COLS + 1 = 13"
    by (simp add: QUESTION_COLS_def)
  have c: "df_len (dropna small_items) = 4"
    by (simp add: small_complete)
  note t = adequacy_has_no_row_threshold [OF small_items_of, of nan_lib]
  from t have c4: "calls_of ''calculate_bartlett_sphericity''
        (out (snd (perform_adequacy_tests nan_lib 0 (start small_matrix 0))))
      = [dropna small_items]"
    by simp
  from t [THEN conjunct2]
  have c5: "fst (perform_adequacy_tests nan_lib 0 (start small_matrix 0))
      = Inr (NegInf, Num 1, NaN)"
    by (simp add: small_complete b k)
  show ?thesis
    by (intro conjI small_items_of c n c4 c5)
qed

text \<open>
  Claim C9, as the code has it. \<^verbatim>\<open>main\<close> performs the adequacy tests once for the run:
  when no group is empty, the sphericity test is called exactly once, on the complete
  cases of the item columns of the pooled filtered matrix, and KMO once on the same
  frame (if the sphericity test returned), whichever groups the partitioner produced.
\<close>

theorem adequacy_once_on_pooled_matrix:
  assumes h1: "filter_data matrix w = (Inr fm, w1)"
    and h2: "\<not> df_empty (heap w1 ! fm)"
    and h3: "prepare_format_groups fm w1 = (Inr gs, w2)"
    and h4: "\<forall>g \<in> set gs. df_len (heap w2 ! g) \<noteq> 0"
    and h5: "getitem_cols (heap w1 ! fm) QUESTION_COLS = Inr pooled"
  shows "calls_of ''calculate_bartlett_sphericity'' (out (snd (main lib matrix w)))
      = calls_of ''calculate_bartlett_sphericity'' (out w) @ [dropna pooled]
    \<and> calls_of ''calculate_kmo'' (out (snd (main lib matrix w)))
      = calls_of ''calculate_kmo'' (out w) @
         (case calculate_bartlett_sphericity lib (dropna pooled) of
            Inl e \<Rightarrow> [] | Inr r \<Rightarrow> [dropna pooled])"
proof -
  have p: "getitem_cols (heap w2 ! fm) QUESTION_COLS = Inr pooled"
    using h5 by (simp add: filtered_kept [OF h1 h3])
  show ?thesis
    by (simp add: main_calls [OF h1 h2 h3 h4] adequacy_run(2,3) [OF p]
        calls_after_partition [OF h1 h3])
qed

theorem adequacy_once_on_pooled_matrix_witness:
  "calls_of ''calculate_bartlett_sphericity'' (out (snd (main nan_lib 0 (start small_matrix 0))))
     = [dropna small_items]
   \<and> calls_of ''calculate_kmo'' (out (snd (main nan_lib 0 (start small_matrix 0))))
     = [dropna small_items]"
  using adequacy_once_on_pooled_matrix [OF small_run, of nan_lib]
  by (simp add: nan_lib_def)

text \<open>
  The claim as stated fails: on \<open>small_matrix\<close> the partitioner produces four groups
  of one row each, and the only frame the sphericity test is given is the pooled one,
  with all four rows.
\<close>

theorem adequacy_once_on_pooled_matrix_counterexample:
  "calls_of ''calculate_bartlett_sphericity'' (out (snd (main nan_lib 0 (start small_matrix 0))))
     = [small_items]
   \<and> df_len small_items = 4
   \<and> fst (prepare_format_groups 2 (snd (filter_data 0 (start small_matrix (0 :: nat)))))
       = Inr [6, 8, 10, 12]
   \<and> map (\<lambda>g. df_len (heap (snd (prepare_format_groups 2
                 (snd (filter_data 0 (start small_matrix (0 :: nat)))))) ! g)) [6, 8, 10, 12]
       = [1, 1, 1, 1]"
proof -
  have "map (\<lambda>g. df_len (heap (snd (prepare_format_groups 2
                 (snd (filter_data 0 (start small_matrix (0 :: nat)))))) ! g)) [6, 8, 10, 12]
       = [1, 1, 1, 1]"
    by code_simp
  moreover have "fst (prepare_format_groups 2 (snd (filter_data 0 (start small_matrix (0 :: nat)))))
       = Inr [6, 8, 10, 12]"
    using small_run(3) by (metis fst_conv)
  ultimately show ?thesis
    by (simp add: main_calls [OF small_run(1-4)] adequacy_run(2) [OF small_pooled]
        calls_after_partition [OF small_run(1) small_run(3)] small_complete)
qed

section \<open>The bootstrap analysis\<close>






end
